(* ===== verification/Prelude.thy ===== *)
theory Prelude
  imports Complex_Main
begin

text \<open>
  Shared vocabulary of the development: the types that name the model's values, the
  pieces of Python semantics the two controller scripts rely on (true division of
  integers into floats, float modulo, tuple indexing with negative indices, truthiness
  of a float), the Python error values, and the simp collection that unfolds them.
  Python floats are idealised as \<open>real\<close>: the scripts only add, subtract, multiply,
  divide and compare small values, and no claim depends on rounding.
\<close>

named_theorems py_simps \<open>equations evaluating the Python primitives of the model\<close>

type_synonym axis = int \<comment> \<open>a joystick axis sample, nominally in \<open>-100..100\<close>\<close>
type_synonym degrees = real \<comment> \<open>a motor angle as read with \<open>position(DEGREES)\<close>\<close>

text \<open>Python exceptions that the scripts can raise.\<close>

datatype py_error =
    UnboundLocalError string \<comment> \<open>a local variable read before its first assignment\<close>
  | IndexError

text \<open>
  Python's \<open>%\<close> on floats: the result has the sign of the divisor, so for a positive
  modulus it lies in \<open>[0, m)\<close>, also for negative arguments.
\<close>

definition py_fmod :: "real \<Rightarrow> real \<Rightarrow> real" where
  "py_fmod x m = x - m * of_int \<lfloor>x / m\<rfloor>"

text \<open>Truthiness of a Python float: \<open>0.0\<close> is false, every other value is true.\<close>

definition py_truthy :: "real \<Rightarrow> bool" where
  "py_truthy x \<longleftrightarrow> x \<noteq> 0"

text \<open>Tuple indexing \<open>t[i]\<close>: negative indices count from the end; out of range raises.\<close>

definition py_index :: "'a list \<Rightarrow> int \<Rightarrow> py_error + 'a" where
  "py_index xs i =
     (if - int (length xs) \<le> i \<and> i < int (length xs)
      then Inr (xs ! nat (if i < 0 then i + int (length xs) else i))
      else Inl IndexError)"

declare py_truthy_def [py_simps]

subsection \<open>Lemmas on the Python primitives\<close>

lemma py_fmod_bounds:
  assumes "0 < m"
  shows "0 \<le> py_fmod x m \<and> py_fmod x m < m"
proof -
  from assms have "of_int \<lfloor>x / m\<rfloor> * m \<le> x" and "x < (of_int \<lfloor>x / m\<rfloor> + 1) * m"
    by (rule floor_divide_lower, rule floor_divide_upper)
  then show ?thesis
    by (simp add: py_fmod_def algebra_simps)
qed

lemma py_fmod_small [py_simps]:
  assumes "0 \<le> x" and "x < m"
  shows "py_fmod x m = x"
proof -
  from assms have "\<lfloor>x / m\<rfloor> = 0"
    by (simp add: floor_eq_iff)
  then show ?thesis by (simp add: py_fmod_def)
qed

lemma py_fmod_periodic:
  assumes "0 < m"
  shows "py_fmod (x + of_int k * m) m = py_fmod x m"
proof -
  from assms have "(x + of_int k * m) / m = x / m + of_int k"
    by (simp add: field_simps)
  then show ?thesis
    by (simp add: py_fmod_def algebra_simps)
qed

lemma py_index_in_range:
  assumes "0 \<le> i" and "i < int (length xs)"
  shows "py_index xs i = Inr (xs ! nat i)"
  using assms by (simp add: py_index_def)

lemma py_index_negative:
  assumes "i < 0" and "- int (length xs) \<le> i"
  shows "py_index xs i = Inr (xs ! nat (i + int (length xs)))"
  using assms by (simp add: py_index_def)

lemma py_index_error_iff:
  "py_index xs i = Inl e \<longleftrightarrow> e = IndexError \<and> (i < - int (length xs) \<or> int (length xs) \<le> i)"
  by (auto simp: py_index_def Let_def)

end
