(* ===== verification/Vex.thy ===== *)
theory Vex
  imports Prelude
begin

text \<open>
  The VEX V5 Python facade the two scripts program against (\<open>from vex import *\<close>); it is
  not part of the repository, so it is modelled from the spec (section 6): a motor keeps
  its construction parameters, its stopping mode, its position reference and the last
  command it runs; the controller screen keeps a cursor and the text of its rows; the
  controller has twelve buttons with press and release edges. Every command the scripts
  issue is also appended to an effect log, in order, so that claims about which
  commands were sent, and in which order, are claims about that log.
\<close>

datatype direction = FORWARD | REVERSE

datatype velocity_units = PERCENT | RPM
  | DefaultVelocityUnits \<comment> \<open>no unit argument given: the facade's default applies\<close>

datatype rotation_units = DEGREES

datatype brake_type = COAST | BRAKE | HOLD

datatype gear_setting = RATIO_36_1 | RATIO_18_1 | RATIO_6_1

text \<open>What a motor is doing after its last command.\<close>

datatype motor_mode =
    Idle
  | Spinning direction real velocity_units
  | MovingTo degrees real velocity_units \<comment> \<open>a non-blocking \<open>spin_to_position\<close> in progress\<close>
  | Stopped brake_type \<comment> \<open>stopped, with the idle behaviour it was stopped with\<close>

record motor =
  m_port :: nat
  m_gear :: gear_setting
  m_reversed :: bool
  m_stopping :: brake_type
  m_position :: degrees
  m_mode :: motor_mode

text \<open>\<open>Motor(port, gear, reversed)\<close>: a fresh motor coasts and reads position 0.\<close>

definition new_motor :: "nat \<Rightarrow> gear_setting \<Rightarrow> bool \<Rightarrow> motor" where
  "new_motor p g r = \<lparr>m_port = p, m_gear = g, m_reversed = r, m_stopping = COAST,
                      m_position = 0, m_mode = Idle\<rparr>"

datatype motor_cmd =
    Spin direction real velocity_units
  | SpinToPosition degrees rotation_units real velocity_units bool
  | Stop
  | ResetPosition
  | SetStopping brake_type

text \<open>
  The effect of one command on a motor. A blocking \<open>spin_to_position\<close> returns when
  the joint has reached its target, so the position read afterwards is the target and the
  motor holds there with its stopping mode; a non-blocking one only starts the move.
\<close>

primrec motor_exec :: "motor_cmd \<Rightarrow> motor \<Rightarrow> motor" where
  "motor_exec (Spin d v u) m = m\<lparr>m_mode := Spinning d v u\<rparr>"
| "motor_exec (SpinToPosition t ru v vu w) m =
     (if w then m\<lparr>m_position := t, m_mode := Stopped (m_stopping m)\<rparr>
      else m\<lparr>m_mode := MovingTo t v vu\<rparr>)"
| "motor_exec Stop m = m\<lparr>m_mode := Stopped (m_stopping m)\<rparr>"
| "motor_exec ResetPosition m = m\<lparr>m_position := 0\<rparr>"
| "motor_exec (SetStopping b) m = m\<lparr>m_stopping := b\<rparr>"

subsection \<open>The controller screen\<close>

text \<open>
  Printed text: a literal, or a literal concatenated with \<open>str\<close> of a float (the
  decimal rendering of \<open>str\<close> is not modelled, the value is kept).
\<close>

datatype screen_text = Txt string | TxtStr string real

datatype screen_op = ClearScreen | SetCursor nat nat | Print screen_text | NextRow

record screen =
  cur_row :: nat
  cur_col :: nat
  rows :: "nat \<Rightarrow> screen_text list"

definition blank_screen :: screen where
  "blank_screen = \<lparr>cur_row = 0, cur_col = 0, rows = (\<lambda>_. [])\<rparr>"

primrec screen_exec :: "screen_op \<Rightarrow> screen \<Rightarrow> screen" where
  "screen_exec ClearScreen sc = sc\<lparr>rows := (\<lambda>_. [])\<rparr>"
| "screen_exec (SetCursor r c) sc = sc\<lparr>cur_row := r, cur_col := c\<rparr>"
| "screen_exec (Print t) sc = sc\<lparr>rows := (rows sc)(cur_row sc := rows sc (cur_row sc) @ [t])\<rparr>"
| "screen_exec NextRow sc = sc\<lparr>cur_row := Suc (cur_row sc), cur_col := 0\<rparr>"

subsection \<open>The brain: motors, screen and the log of effects\<close>

datatype 'm effect = MotorEff 'm motor_cmd | ScreenEff screen_op | SleepEff nat

record 'm hw =
  motors :: "'m \<Rightarrow> motor"
  scr :: screen
  effects :: "'m effect list"

definition issue :: "'m \<Rightarrow> motor_cmd \<Rightarrow> 'm hw \<Rightarrow> 'm hw" where
  "issue k c h = h\<lparr>motors := (motors h)(k := motor_exec c (motors h k)),
                   effects := effects h @ [MotorEff k c]\<rparr>"

definition screen_do :: "screen_op \<Rightarrow> 'm hw \<Rightarrow> 'm hw" where
  "screen_do op h = h\<lparr>scr := screen_exec op (scr h), effects := effects h @ [ScreenEff op]\<rparr>"

definition sleep_ms :: "nat \<Rightarrow> 'm hw \<Rightarrow> 'm hw" where
  "sleep_ms n h = h\<lparr>effects := effects h @ [SleepEff n]\<rparr>"

text \<open>The physical world moves a motor: its encoder reads a new angle.\<close>

definition env_move :: "'m \<Rightarrow> degrees \<Rightarrow> 'm hw \<Rightarrow> 'm hw" where
  "env_move k a h = h\<lparr>motors := (motors h)(k := (motors h k)\<lparr>m_position := a\<rparr>)\<rparr>"

definition position :: "'m \<Rightarrow> 'm hw \<Rightarrow> degrees" where
  "position k h = m_position (motors h k)"

subsection \<open>Controller buttons\<close>

datatype button = ButtonA | ButtonB | ButtonX | ButtonY | ButtonL1 | ButtonL2
  | ButtonR1 | ButtonR2 | ButtonUp | ButtonDown | ButtonLeft | ButtonRight

datatype edge = Pressed | Released

text \<open>
  The input sampler: one sample of the controller holds the two stick axes the scripts read
  (\<open>axis1\<close>, the right stick's x, and \<open>axis3\<close>, the left stick's y, in
  \<open>-100..100\<close>) and which buttons are down. The event dispatcher compares two
  consecutive samples and fires \<open>pressed\<close> for a button that went down and
  \<open>released\<close> for one that went up, one edge per changed button, in the order of
  \<open>all_buttons\<close> (the spec leaves the order of simultaneous edges open).
\<close>

record pad =
  axis1 :: axis
  axis3 :: axis
  held :: "button \<Rightarrow> bool"

definition pad_ok :: "pad \<Rightarrow> bool" where
  "pad_ok p \<longleftrightarrow> \<bar>axis1 p\<bar> \<le> 100 \<and> \<bar>axis3 p\<bar> \<le> 100"

definition all_buttons :: "button list" where
  "all_buttons = [ButtonA, ButtonB, ButtonX, ButtonY, ButtonL1, ButtonL2, ButtonR1, ButtonR2,
                  ButtonUp, ButtonDown, ButtonLeft, ButtonRight]"

definition pad_edges :: "(button \<Rightarrow> bool) \<Rightarrow> (button \<Rightarrow> bool) \<Rightarrow> (button \<times> edge) list" where
  "pad_edges old new =
     concat (map (\<lambda>b. if old b = new b then [] else [(b, if new b then Pressed else Released)]) all_buttons)"

subsection \<open>Facts about the facade\<close>

lemmas hw_defs = issue_def screen_do_def sleep_ms_def env_move_def position_def

lemma motors_issue [simp]:
  "motors (issue k c h) = (motors h)(k := motor_exec c (motors h k))"
  by (simp add: issue_def)

lemma motors_screen_do [simp]: "motors (screen_do op h) = motors h"
  by (simp add: screen_do_def)

lemma motors_sleep_ms [simp]: "motors (sleep_ms n h) = motors h"
  by (simp add: sleep_ms_def)

lemma scr_issue [simp]: "scr (issue k c h) = scr h"
  by (simp add: issue_def)

lemma scr_sleep_ms [simp]: "scr (sleep_ms n h) = scr h"
  by (simp add: sleep_ms_def)

lemma effects_issue [simp]: "effects (issue k c h) = effects h @ [MotorEff k c]"
  by (simp add: issue_def)

lemma effects_screen_do [simp]: "effects (screen_do op h) = effects h @ [ScreenEff op]"
  by (simp add: screen_do_def)

lemma effects_sleep_ms [simp]: "effects (sleep_ms n h) = effects h @ [SleepEff n]"
  by (simp add: sleep_ms_def)

lemma scr_screen_do [simp]: "scr (screen_do op h) = screen_exec op (scr h)"
  by (simp add: screen_do_def)

lemma position_env_move [simp]: "position k (env_move k a h) = a"
  by (simp add: env_move_def position_def)

lemma effects_env_move [simp]: "effects (env_move k a h) = effects h"
  by (simp add: env_move_def)

lemma pad_edges_button:
  "filter (\<lambda>(b', e). b' = b) (pad_edges old new) =
     (if old b = new b then [] else [(b, if new b then Pressed else Released)])"
  by (cases b) (simp_all add: pad_edges_def all_buttons_def)

lemma scr_env_move [simp]: "scr (env_move k a h) = scr h"
  by (simp add: env_move_def)

text \<open>Only \<open>SetStopping\<close> changes the stopping mode; only two commands move the position.\<close>

lemma m_stopping_motor_exec [simp]:
  "m_stopping (motor_exec c m) = (case c of SetStopping b \<Rightarrow> b | _ \<Rightarrow> m_stopping m)"
  by (cases c) simp_all

lemma m_construction_motor_exec [simp]:
  "m_port (motor_exec c m) = m_port m"
  "m_gear (motor_exec c m) = m_gear m"
  "m_reversed (motor_exec c m) = m_reversed m"
  by (cases c; simp)+

end
