(* ===== verification/Mixer.thy ===== *)
theory Mixer
  imports Vex
begin

text \<open>
  The interface both drive loops agree on. Both \<open>drive_task\<close>s (mediumEricForTheWin
  and tinyEricForever, \<open>src/*/src/main.py\<close>) share one directional decision tree on the
  two axis samples (forward, backward, rotate right, rotate left, stop; within forward and
  backward: arc right, arc left, straight) and differ only in the numbers they put on the
  wheels. This theory holds that tree (\<open>manoeuvre\<close>), a mixer profile (the four
  numbers a robot computes per cycle), the generic mixer \<open>mix_profile\<close> that each
  robot's literal translation is proved equal to, the way a drive command reaches the two
  drive motors (\<open>apply_drive\<close>), and the abstract steering intent the mixer refines.
\<close>

datatype turn = ArcRight | ArcLeft | Straight

datatype manoeuvre = Forward turn | Backward turn | RotateRight | RotateLeft | Halt

text \<open>The nested \<open>if\<close>/\<open>elif\<close> chain on the axes, in the source's priority order.\<close>

definition arc :: "axis \<Rightarrow> turn" where
  "arc x = (if x > 5 then ArcRight else if x < -5 then ArcLeft else Straight)"

definition manoeuvre :: "axis \<Rightarrow> axis \<Rightarrow> manoeuvre" where
  "manoeuvre y x =
     (if y > 5 then Forward (arc x)
      else if y < -5 then Backward (arc x)
      else if x > 15 then RotateRight
      else if x < -15 then RotateLeft
      else Halt)"

text \<open>A drive command: direction and velocity for the left and right motor, or stop both.\<close>

datatype drive_out = DriveSpin direction real direction real | DriveStop

record mixer_profile =
  mp_speed :: real \<comment> \<open>base power of both tracks\<close>
  mp_steer :: real \<comment> \<open>power taken from the inner track in an arc\<close>
  mp_outer :: real \<comment> \<open>power added to the outer track in an arc\<close>
  mp_rot :: real \<comment> \<open>power of both tracks when rotating in place\<close>

primrec mix_profile :: "mixer_profile \<Rightarrow> manoeuvre \<Rightarrow> drive_out" where
  "mix_profile pf (Forward t) =
     (case t of
        ArcRight \<Rightarrow> DriveSpin FORWARD (mp_speed pf + mp_outer pf) FORWARD (mp_speed pf - mp_steer pf)
      | ArcLeft \<Rightarrow> DriveSpin FORWARD (mp_speed pf - mp_steer pf) FORWARD (mp_speed pf + mp_outer pf)
      | Straight \<Rightarrow> DriveSpin FORWARD (mp_speed pf) FORWARD (mp_speed pf))"
| "mix_profile pf (Backward t) =
     (case t of
        ArcRight \<Rightarrow> DriveSpin REVERSE (mp_speed pf - mp_steer pf) REVERSE (mp_speed pf + mp_outer pf)
      | ArcLeft \<Rightarrow> DriveSpin REVERSE (mp_speed pf + mp_outer pf) REVERSE (mp_speed pf - mp_steer pf)
      | Straight \<Rightarrow> DriveSpin REVERSE (mp_speed pf) REVERSE (mp_speed pf))"
| "mix_profile pf RotateRight = DriveSpin FORWARD (mp_rot pf) REVERSE (mp_rot pf)"
| "mix_profile pf RotateLeft = DriveSpin REVERSE (mp_rot pf) FORWARD (mp_rot pf)"
| "mix_profile pf Halt = DriveStop"

text \<open>
  Sending a drive command: \<open>left_drive.spin(...)\<close> then \<open>right_drive.spin(...)\<close> in
  \<open>PERCENT\<close>, or \<open>left_drive.stop()\<close> then \<open>right_drive.stop()\<close>.
\<close>

primrec apply_drive :: "'m \<Rightarrow> 'm \<Rightarrow> drive_out \<Rightarrow> 'm hw \<Rightarrow> 'm hw" where
  "apply_drive l r (DriveSpin dl vl dr vr) h = issue r (Spin dr vr PERCENT) (issue l (Spin dl vl PERCENT) h)"
| "apply_drive l r DriveStop h = issue r Stop (issue l Stop h)"

subsection \<open>Abstract specification: the steering intent\<close>

text \<open>
  Signed track velocity (a \<open>REVERSE\<close> spin at \<open>v\<close> is \<open>-v\<close>) and the yaw of a drive
  command: left minus right, positive when the robot turns clockwise (to the right).
  The intent of the operator: with the stick outside the forward/backward deadband the
  robot turns the way the turn stick points beyond 5; inside it, it rotates the way the
  stick points beyond 15; otherwise it does not turn.
\<close>

primrec signed_vel :: "direction \<Rightarrow> real \<Rightarrow> real" where
  "signed_vel FORWARD v = v"
| "signed_vel REVERSE v = - v"

primrec yaw :: "drive_out \<Rightarrow> real" where
  "yaw (DriveSpin dl vl dr vr) = signed_vel dl vl - signed_vel dr vr"
| "yaw DriveStop = 0"

definition steer_intent :: "axis \<Rightarrow> axis \<Rightarrow> int" where
  "steer_intent y x =
     (if \<bar>y\<bar> > 5 then (if x > 5 then 1 else if x < -5 then -1 else 0)
      else if x > 15 then 1 else if x < -15 then -1 else 0)"

primrec drive_vels :: "drive_out \<Rightarrow> real set" where
  "drive_vels (DriveSpin dl vl dr vr) = {vl, vr}"
| "drive_vels DriveStop = {}"

text \<open>The directions a drive command gives the left and right track; none for a stop.\<close>

primrec track_dirs :: "drive_out \<Rightarrow> (direction \<times> direction) option" where
  "track_dirs (DriveSpin dl vl dr vr) = Some (dl, dr)"
| "track_dirs DriveStop = None"

text \<open>
  A profile serves the intent when an arc takes power from the inner track
  (\<open>steer > 0\<close>) without taking it from the outer one (\<open>outer \<ge> 0\<close>), and a
  rotation turns the tracks (\<open>rot > 0\<close>).
\<close>

definition profile_ok :: "mixer_profile \<Rightarrow> manoeuvre \<Rightarrow> bool" where
  "profile_ok pf m =
     (case m of
        Forward t \<Rightarrow> t = Straight \<or> (0 < mp_steer pf \<and> 0 \<le> mp_outer pf)
      | Backward t \<Rightarrow> t = Straight \<or> (0 < mp_steer pf \<and> 0 \<le> mp_outer pf)
      | Halt \<Rightarrow> True
      | _ \<Rightarrow> 0 < mp_rot pf)"

subsection \<open>Mirror symmetry\<close>

text \<open>Mirroring the turn stick mirrors the manoeuvre and swaps the tracks.\<close>

primrec mirror_turn :: "turn \<Rightarrow> turn" where
  "mirror_turn ArcRight = ArcLeft"
| "mirror_turn ArcLeft = ArcRight"
| "mirror_turn Straight = Straight"

primrec mirror_m :: "manoeuvre \<Rightarrow> manoeuvre" where
  "mirror_m (Forward t) = Forward (mirror_turn t)"
| "mirror_m (Backward t) = Backward (mirror_turn t)"
| "mirror_m RotateRight = RotateLeft"
| "mirror_m RotateLeft = RotateRight"
| "mirror_m Halt = Halt"

primrec mirror_out :: "drive_out \<Rightarrow> drive_out" where
  "mirror_out (DriveSpin dl vl dr vr) = DriveSpin dr vr dl vl"
| "mirror_out DriveStop = DriveStop"

text \<open>The sign of the turn a manoeuvre asks for.\<close>

primrec turn_sign :: "manoeuvre \<Rightarrow> int" where
  "turn_sign (Forward t) = (case t of ArcRight \<Rightarrow> 1 | ArcLeft \<Rightarrow> -1 | Straight \<Rightarrow> 0)"
| "turn_sign (Backward t) = (case t of ArcRight \<Rightarrow> 1 | ArcLeft \<Rightarrow> -1 | Straight \<Rightarrow> 0)"
| "turn_sign RotateRight = 1"
| "turn_sign RotateLeft = -1"
| "turn_sign Halt = 0"

subsection \<open>Lemmas of the decision tree and the generic mixer\<close>

lemmas mixer_defs = manoeuvre_def arc_def steer_intent_def

lemma manoeuvre_Halt_iff: "manoeuvre y x = Halt \<longleftrightarrow> \<bar>y\<bar> \<le> 5 \<and> \<bar>x\<bar> \<le> 15"
  by (auto simp: manoeuvre_def)

lemma manoeuvre_mirror: "manoeuvre y (- x) = mirror_m (manoeuvre y x)"
  by (simp add: manoeuvre_def arc_def)

lemma mix_profile_mirror: "mix_profile pf (mirror_m m) = mirror_out (mix_profile pf m)"
proof (cases m)
  case (Forward t)
  then show ?thesis by (cases t) simp_all
next
  case (Backward t)
  then show ?thesis by (cases t) simp_all
qed simp_all

lemma steer_intent_turn_sign: "steer_intent y x = turn_sign (manoeuvre y x)"
  by (auto simp: steer_intent_def manoeuvre_def arc_def)

lemma yaw_mix_profile_sign:
  assumes "profile_ok pf m"
  shows "sgn (yaw (mix_profile pf m)) = of_int (turn_sign m)"
  using assms
proof (cases m)
  case (Forward t)
  with assms show ?thesis by (cases t) (auto simp: profile_ok_def sgn_if)
next
  case (Backward t)
  with assms show ?thesis by (cases t) (auto simp: profile_ok_def sgn_if)
qed (auto simp: profile_ok_def sgn_if)

text \<open>Every drive command is one of the nine outcomes of the spec (section 7).\<close>

lemma mix_profile_Halt_iff: "mix_profile pf m = DriveStop \<longleftrightarrow> m = Halt"
proof (cases m)
  case (Forward t)
  then show ?thesis by (cases t) simp_all
next
  case (Backward t)
  then show ?thesis by (cases t) simp_all
qed simp_all

text \<open>The motors after a drive command depend on the motors before it only.\<close>

primrec drive_motors :: "'m \<Rightarrow> 'm \<Rightarrow> drive_out \<Rightarrow> ('m \<Rightarrow> motor) \<Rightarrow> ('m \<Rightarrow> motor)" where
  "drive_motors l r (DriveSpin dl vl dr vr) ms =
     (let ms' = ms(l := motor_exec (Spin dl vl PERCENT) (ms l))
      in ms'(r := motor_exec (Spin dr vr PERCENT) (ms' r)))"
| "drive_motors l r DriveStop ms =
     (let ms' = ms(l := motor_exec Stop (ms l))
      in ms'(r := motor_exec Stop (ms' r)))"

lemma motors_apply_drive [simp]:
  "motors (apply_drive l r d h) = drive_motors l r d (motors h)"
  by (cases d) (simp_all add: Let_def)

lemma motors_apply_drive_other:
  "j \<noteq> l \<Longrightarrow> j \<noteq> r \<Longrightarrow> motors (apply_drive l r d h) j = motors h j"
  by (cases d) (simp_all add: Let_def)

lemma scr_apply_drive [simp]: "scr (apply_drive l r d h) = scr h"
  by (cases d) simp_all

end
