(* ===== verification/Robot1.thy ===== *)
theory Robot1
  imports Mixer
begin

text \<open>
  Robot 1, \<open>src/mediumEricForTheWin/src/main.py\<close>: a tank drive, an arm of two joints
  (base and joint) with two preset poses, a claw, a snow scoop and an unused tray motor.
  Its module globals are the motors and the flag \<open>precise\<close>; the state of the model is
  the brain (motors, screen, effect log) and that flag. Each function of the script is a
  definition here, in the script's order; the drive thread's loop body is
  \<open>drive_iter1\<close>, its pure decision part \<open>drive_mix1\<close>.
\<close>

datatype motor1 = LeftDrive | RightDrive | ClawMotor | ArmBaseMotor | ArmJointMotor
  | TrayMotor | SnowMotor

record robot1 =
  hw1 :: "motor1 hw"
  precise :: bool

text \<open>Lines 11-19: the motors as constructed (port, gear ratio, reversed).\<close>

primrec motor_decl1 :: "motor1 \<Rightarrow> motor" where
  "motor_decl1 LeftDrive = new_motor 20 RATIO_18_1 False"
| "motor_decl1 RightDrive = new_motor 19 RATIO_18_1 True"
| "motor_decl1 ClawMotor = new_motor 3 RATIO_18_1 True"
| "motor_decl1 ArmBaseMotor = new_motor 9 RATIO_18_1 True"
| "motor_decl1 ArmJointMotor = new_motor 8 RATIO_18_1 False"
| "motor_decl1 TrayMotor = new_motor 1 RATIO_18_1 False"
| "motor_decl1 SnowMotor = new_motor 18 RATIO_18_1 False"

text \<open>Line 24: the preset poses (angle base, angle joint), top dowel first.\<close>

definition PRESETS :: "(degrees \<times> degrees) list" where
  "PRESETS = [(456.8, 435.2), (427.6, 295.2 + 50)]"

text \<open>Lines 1-27: the module state before any handler or thread runs.\<close>

definition boot1 :: robot1 where
  "boot1 = \<lparr>hw1 = \<lparr>motors = motor_decl1, scr = blank_screen, effects = []\<rparr>, precise = False\<rparr>"

text \<open>Lines 52-57, \<open>print_position\<close>.\<close>

definition print_position :: "robot1 \<Rightarrow> robot1" where
  "print_position s =
     s\<lparr>hw1 := screen_do (Print (TxtStr ''MID:  '' (position ArmJointMotor (hw1 s))))
               (screen_do NextRow
                 (screen_do (Print (TxtStr ''BASE: '' (position ArmBaseMotor (hw1 s))))
                   (screen_do (SetCursor 0 0) (screen_do ClearScreen (hw1 s)))))\<rparr>"

text \<open>Lines 30-35, \<open>toggle_precise\<close>: \<open>precise = (False if precise else True)\<close>.\<close>

definition toggle_precise :: "robot1 \<Rightarrow> robot1" where
  "toggle_precise s = print_position (s\<lparr>precise := (if precise s then False else True)\<rparr>)"

text \<open>Lines 38-40, \<open>recalibrate\<close>.\<close>

definition recalibrate1 :: "robot1 \<Rightarrow> robot1" where
  "recalibrate1 s = s\<lparr>hw1 := issue ArmJointMotor ResetPosition (issue ArmBaseMotor ResetPosition (hw1 s))\<rparr>"

text \<open>
  Lines 43-44, \<open>control_motor\<close>: \<open>motor.spin(FORWARD, direction * percent)\<close>, with no
  unit argument.
\<close>

definition control_motor1 :: "int \<Rightarrow> motor1 \<Rightarrow> int \<Rightarrow> robot1 \<Rightarrow> robot1" where
  "control_motor1 direction k percent s =
     s\<lparr>hw1 := issue k (Spin FORWARD (of_int (direction * percent)) DefaultVelocityUnits) (hw1 s)\<rparr>"

text \<open>
  Lines 47-49, \<open>move_arm_to\<close>: \<open>PRESETS[i]\<close> raises for an index out of range and
  accepts negative ones; the base move blocks (\<open>True\<close>), the joint move does not.
\<close>

definition move_arm_to :: "int \<Rightarrow> robot1 \<Rightarrow> py_error + robot1" where
  "move_arm_to i s =
     (case py_index PRESETS i of
        Inl e \<Rightarrow> Inl e
      | Inr (b, j) \<Rightarrow>
          Inr (s\<lparr>hw1 := issue ArmJointMotor (SpinToPosition j DEGREES 60 RPM False)
                         (issue ArmBaseMotor (SpinToPosition b DEGREES 60 RPM True) (hw1 s))\<rparr>))"

text \<open>
  Lines 69-119, the decision part of one drive iteration: \<open>/\<close> is Python's true
  division, so \<open>steer\<close> and \<open>speed\<close> are floats.
\<close>

definition drive_mix1 :: "bool \<Rightarrow> axis \<Rightarrow> axis \<Rightarrow> drive_out" where
  "drive_mix1 prec y x =
     (let steer = of_int \<bar>x\<bar> / (if prec then 4 else 2);
          speed = of_int \<bar>y\<bar> / (if prec then 3 else 1);
          speed = (if y < 0 \<and> \<not> prec then speed / 2 else speed)
      in if y > 5 then
           (if x > 5 then DriveSpin FORWARD speed FORWARD (speed - steer)
            else if x < -5 then DriveSpin FORWARD (speed - steer) FORWARD speed
            else DriveSpin FORWARD speed FORWARD speed)
         else if y < -5 then
           (if x > 5 then DriveSpin REVERSE (speed - steer) REVERSE speed
            else if x < -5 then DriveSpin REVERSE speed REVERSE (speed - steer)
            else DriveSpin REVERSE speed REVERSE speed)
         else if x > 15 then DriveSpin FORWARD steer REVERSE steer
         else if x < -15 then DriveSpin REVERSE steer FORWARD steer
         else DriveStop)"

text \<open>
  Lines 63-123, one iteration of \<open>drive_task\<close>'s loop: read the two axes (the
  arguments), send the drive command, \<open>sleep(10)\<close>.
\<close>

definition drive_iter1 :: "axis \<Rightarrow> axis \<Rightarrow> robot1 \<Rightarrow> robot1" where
  "drive_iter1 y x s =
     s\<lparr>hw1 := sleep_ms 10 (apply_drive LeftDrive RightDrive (drive_mix1 (precise s) y x) (hw1 s))\<rparr>"

text \<open>
  The loop run over a finite sequence of samples (the first \<open>n\<close> iterations of the
  infinite loop) when no handler runs in between; \<open>Session1\<close> interleaves handlers.
\<close>

fun drive_loop1 :: "(axis \<times> axis) list \<Rightarrow> robot1 \<Rightarrow> robot1" where
  "drive_loop1 [] s = s"
| "drive_loop1 ((y, x) # ins) s = drive_loop1 ins (drive_iter1 y x s)"

text \<open>Lines 126-140: the idle behaviours configured after the thread is created.\<close>

definition setup1 :: "robot1 \<Rightarrow> robot1" where
  "setup1 s =
     s\<lparr>hw1 := issue SnowMotor (SetStopping HOLD)
              (issue ArmJointMotor (SetStopping HOLD)
                (issue ArmBaseMotor (SetStopping HOLD)
                  (issue RightDrive (SetStopping BRAKE)
                    (issue LeftDrive (SetStopping BRAKE)
                      (issue ClawMotor (SetStopping HOLD) (hw1 s))))))\<rparr>"

definition init1 :: robot1 where
  "init1 = setup1 boot1"

text \<open>Lines 142-173: the button bindings; an edge with no binding does nothing.\<close>

fun handler1 :: "button \<Rightarrow> edge \<Rightarrow> robot1 \<Rightarrow> py_error + robot1" where
  "handler1 ButtonA Pressed s = Inr (toggle_precise s)"
| "handler1 ButtonB Pressed s = Inr (recalibrate1 s)"
| "handler1 ButtonX Pressed s = move_arm_to 0 s"
| "handler1 ButtonY Pressed s = move_arm_to 1 s"
| "handler1 ButtonL1 Pressed s = Inr (control_motor1 1 ArmBaseMotor 60 s)"
| "handler1 ButtonL1 Released s = Inr (control_motor1 0 ArmBaseMotor 60 s)"
| "handler1 ButtonL2 Pressed s = Inr (control_motor1 (-1) ArmBaseMotor 60 s)"
| "handler1 ButtonL2 Released s = Inr (control_motor1 0 ArmBaseMotor 60 s)"
| "handler1 ButtonR1 Pressed s = Inr (control_motor1 1 ArmJointMotor 60 s)"
| "handler1 ButtonR1 Released s = Inr (control_motor1 0 ArmJointMotor 60 s)"
| "handler1 ButtonR2 Pressed s = Inr (control_motor1 (-1) ArmJointMotor 60 s)"
| "handler1 ButtonR2 Released s = Inr (control_motor1 0 ArmJointMotor 60 s)"
| "handler1 ButtonUp Pressed s = Inr (control_motor1 1 ClawMotor 60 s)"
| "handler1 ButtonUp Released s = Inr (control_motor1 0 ClawMotor 60 s)"
| "handler1 ButtonDown Pressed s = Inr (control_motor1 (-1) ClawMotor 60 s)"
| "handler1 ButtonDown Released s = Inr (control_motor1 0 ClawMotor 60 s)"
| "handler1 ButtonLeft Pressed s = Inr (control_motor1 1 SnowMotor 50 s)"
| "handler1 ButtonLeft Released s = Inr (control_motor1 0 SnowMotor 50 s)"
| "handler1 ButtonRight Pressed s = Inr (control_motor1 (-1) SnowMotor 50 s)"
| "handler1 ButtonRight Released s = Inr (control_motor1 0 SnowMotor 50 s)"
| "handler1 _ _ s = Inr s"

text \<open>The per-cycle numbers of robot 1 as a mixer profile (lines 69-74).\<close>

definition profile1 :: "bool \<Rightarrow> axis \<Rightarrow> axis \<Rightarrow> mixer_profile" where
  "profile1 prec y x =
     (let steer = of_int \<bar>x\<bar> / (if prec then 4 else 2);
          speed = of_int \<bar>y\<bar> / (if prec then 3 else 1)
      in \<lparr>mp_speed = (if y < 0 \<and> \<not> prec then speed / 2 else speed), mp_steer = steer,
          mp_outer = 0, mp_rot = steer\<rparr>)"

text \<open>
  The edge bindings of lines 153-173 that jog a mechanism motor, as a table (button,
  motor, direction, percent): the closure table of spec section 9.
\<close>

definition jog_table1 :: "(button \<times> motor1 \<times> int \<times> int) list" where
  "jog_table1 = [(ButtonL1, ArmBaseMotor, 1, 60), (ButtonL2, ArmBaseMotor, -1, 60),
                 (ButtonR1, ArmJointMotor, 1, 60), (ButtonR2, ArmJointMotor, -1, 60),
                 (ButtonUp, ClawMotor, 1, 60), (ButtonDown, ClawMotor, -1, 60),
                 (ButtonLeft, SnowMotor, 1, 50), (ButtonRight, SnowMotor, -1, 50)]"

text \<open>The idle behaviour each motor is left with by lines 129-140 (the tray is never configured).\<close>

primrec stopping_cfg1 :: "motor1 \<Rightarrow> brake_type" where
  "stopping_cfg1 LeftDrive = BRAKE"
| "stopping_cfg1 RightDrive = BRAKE"
| "stopping_cfg1 ClawMotor = HOLD"
| "stopping_cfg1 ArmBaseMotor = HOLD"
| "stopping_cfg1 ArmJointMotor = HOLD"
| "stopping_cfg1 TrayMotor = COAST"
| "stopping_cfg1 SnowMotor = HOLD"

subsection \<open>Helper lemmas\<close>

lemma drive_mix1_profile: "drive_mix1 prec y x = mix_profile (profile1 prec y x) (manoeuvre y x)"
  by (simp add: drive_mix1_def profile1_def manoeuvre_def arc_def Let_def)

lemma profile1_ok: "profile_ok (profile1 prec y x) (manoeuvre y x)"
  by (auto simp: profile_ok_def profile1_def manoeuvre_def arc_def Let_def)

lemma profile1_mirror: "profile1 prec y (- x) = profile1 prec y x"
  by (simp add: profile1_def)

lemma motors_print_position [simp]: "motors (hw1 (print_position s)) = motors (hw1 s)"
  by (simp add: print_position_def)

lemma precise_print_position [simp]: "precise (print_position s) = precise s"
  by (simp add: print_position_def)

lemma move_arm_to_Inr:
  assumes "py_index PRESETS i = Inr (b, j)"
  shows "move_arm_to i s = Inr (s\<lparr>hw1 := issue ArmJointMotor (SpinToPosition j DEGREES 60 RPM False)
                         (issue ArmBaseMotor (SpinToPosition b DEGREES 60 RPM True) (hw1 s))\<rparr>)"
  using assms by (simp add: move_arm_to_def)

lemma move_arm_to_valid_cases:
  "-2 \<le> (i::int) \<Longrightarrow> i < 2 \<Longrightarrow> i = -2 \<or> i = -1 \<or> i = 0 \<or> i = 1"
  by arith

lemma handler1_cases_Inr:
  "\<exists>s'. handler1 b e s = Inr s' \<and> precise s' = (if b = ButtonA \<and> e = Pressed then \<not> precise s else precise s)
     \<and> (\<forall>k \<in> {LeftDrive, RightDrive}. motors (hw1 s') k = motors (hw1 s) k)
     \<and> (\<forall>k. m_stopping (motors (hw1 s') k) = m_stopping (motors (hw1 s) k)
          \<and> m_port (motors (hw1 s') k) = m_port (motors (hw1 s) k)
          \<and> m_gear (motors (hw1 s') k) = m_gear (motors (hw1 s) k)
          \<and> m_reversed (motors (hw1 s') k) = m_reversed (motors (hw1 s) k))"
  by (cases b; cases e)
     (auto simp: toggle_precise_def recalibrate1_def control_motor1_def move_arm_to_def
                 py_index_def PRESETS_def)

lemma drive_iter1_frame:
  "precise (drive_iter1 y x s) = precise s
   \<and> (\<forall>k. k \<noteq> LeftDrive \<longrightarrow> k \<noteq> RightDrive \<longrightarrow> motors (hw1 (drive_iter1 y x s)) k = motors (hw1 s) k)
   \<and> (\<forall>k. m_stopping (motors (hw1 (drive_iter1 y x s)) k) = m_stopping (motors (hw1 s) k))"
  by (cases "drive_mix1 (precise s) y x") (simp_all add: drive_iter1_def Let_def)

lemma drive_iter1_effects_length:
  "length (effects (hw1 (drive_iter1 y x s))) = length (effects (hw1 s)) + 3"
  by (cases "drive_mix1 (precise s) y x") (simp_all add: drive_iter1_def)

subsection \<open>The drive mixer\<close>

text \<open>
  C1. Robot 1's mixer stops both drive motors exactly when the forward axis is within
  the deadband \<open>|y| \<le> 5\<close> and the turn axis within \<open>|x| \<le> 15\<close>; otherwise it
  commands a spin on both.
\<close>

theorem drive_mix1_stop_iff: "drive_mix1 prec y x = DriveStop \<longleftrightarrow> \<bar>y\<bar> \<le> 5 \<and> \<bar>x\<bar> \<le> 15"
  by (simp add: drive_mix1_profile mix_profile_Halt_iff manoeuvre_Halt_iff)

text \<open>
  C3. Straight drive, the spec's examples among them: beyond the forward deadband with the
  turn axis within \<open>\<plusminus>5\<close>, both tracks get the same power in the stick's direction:
  \<open>y / 1\<close> forward (\<open>y / 3\<close> in precise mode), and backward halved outside precise
  mode (\<open>|y| / 2\<close>) and a third in it.
\<close>

theorem drive_mix1_straight:
  assumes "5 < \<bar>y\<bar>" and "\<bar>x\<bar> \<le> 5"
  shows "drive_mix1 prec y x =
           (if 0 < y then (let v = of_int y / (if prec then 3 else 1) in DriveSpin FORWARD v FORWARD v)
            else (let v = of_int (- y) / (if prec then 3 else 2) in DriveSpin REVERSE v REVERSE v))"
  using assms by (auto simp: drive_mix1_def Let_def)

theorem drive_mix1_straight_witness:
  "drive_mix1 False 50 0 = DriveSpin FORWARD 50 FORWARD 50
   \<and> drive_mix1 False (-50) 0 = DriveSpin REVERSE 25 REVERSE 25"
  using drive_mix1_straight [of 50 0 False] drive_mix1_straight [of "-50" 0 False] by simp

text \<open>
  C5. Inside the forward deadband with the turn axis beyond 15: rotation in place to the
  right, left track forward and right track reverse at \<open>x / 2\<close> (\<open>x / 4\<close> precise).
\<close>

theorem drive_mix1_rotate_right:
  assumes "\<bar>y\<bar> \<le> 5" and "15 < x"
  shows "drive_mix1 prec y x =
           (let v = of_int x / (if prec then 4 else 2) in DriveSpin FORWARD v REVERSE v)"
  using assms by (auto simp: drive_mix1_def Let_def)

theorem drive_mix1_rotate_right_witness:
  "drive_mix1 False 0 20 = DriveSpin FORWARD 10 REVERSE 10"
  using drive_mix1_rotate_right [of 0 20 False] by simp

text \<open>
  C7. Refinement of the steering intent: the yaw of robot 1's drive command (left minus
  right signed track velocity) has the sign the turn stick asks for.
\<close>

theorem drive_mix1_steering_refines:
  "sgn (yaw (drive_mix1 prec y x)) = of_int (steer_intent y x)"
  by (simp add: drive_mix1_profile yaw_mix_profile_sign [OF profile1_ok] steer_intent_turn_sign)

text \<open>C8. Mirroring the turn stick swaps the commands of the left and right track.\<close>

theorem drive_mix1_mirror: "drive_mix1 prec y (- x) = mirror_out (drive_mix1 prec y x)"
  by (simp add: drive_mix1_profile profile1_mirror manoeuvre_mirror mix_profile_mirror)

text \<open>
  C9. For axis samples in the nominal range \<open>-100..100\<close>, every power robot 1 sends to a
  drive motor lies in \<open>-50..100\<close> percent, and in precise mode in \<open>-25..100/3\<close>:
  precise mode caps both the forward power and the reverse power of an inner track.
\<close>

theorem drive_mix1_bounds:
  assumes "\<bar>y\<bar> \<le> 100" and "\<bar>x\<bar> \<le> 100" and "v \<in> drive_vels (drive_mix1 prec y x)"
  shows "if prec then -25 \<le> v \<and> v \<le> 100 / 3 else -50 \<le> v \<and> v \<le> 100"
  using assms by (auto simp: drive_mix1_def Let_def split: if_splits)

theorem drive_mix1_bounds_witness:
  "\<exists>v. v \<in> drive_vels (drive_mix1 True 6 100) \<and> v < 0 \<and> -25 \<le> v \<and> v \<le> 100 / 3"
proof -
  have mem: "-23 \<in> drive_vels (drive_mix1 True 6 100)" by (simp add: drive_mix1_def)
  have "-25 \<le> (-23::real) \<and> (-23::real) \<le> 100 / 3"
    using drive_mix1_bounds [of 6 100 "-23" True] mem by simp
  with mem show ?thesis by (intro exI [of _ "-23"]) simp
qed

text \<open>
  C10. In a forward arc outside precise mode the inner track gets \<open>y - x/2\<close>, which is a
  reverse command exactly when \<open>2y < x\<close>: a hard turn at low speed spins the inner
  track backwards rather than just slowing it.
\<close>

theorem drive_mix1_inner_track:
  assumes "5 < y" and "5 < x"
  shows "drive_mix1 False y x = DriveSpin FORWARD (of_int y) FORWARD (of_int y - of_int x / 2)
         \<and> (of_int y - of_int x / 2 < (0::real) \<longleftrightarrow> 2 * y < x)"
proof -
  have "(of_int y - of_int x / 2 < (0::real)) \<longleftrightarrow> of_int (2 * y) < (of_int x :: real)"
    by (simp add: mult.commute)
  then show ?thesis using assms by (simp only: of_int_less_iff) (simp add: drive_mix1_def Let_def)
qed

theorem drive_mix1_inner_track_witness:
  "drive_mix1 False 6 100 = DriveSpin FORWARD 6 FORWARD (-44)"
  using drive_mix1_inner_track [of 6 100] by simp

subsection \<open>Mode toggle, presets, calibration, jog\<close>

text \<open>
  C12. \<open>toggle_precise\<close> flips the flag, commands no motor, and leaves the screen showing
  the base angle on the first row and the joint angle on the second, nothing else;
  toggling twice gives back the flag, so the next drive cycle's divisors and commands are
  those of before (spec 8: idempotence of the double toggle).
\<close>

theorem toggle_precise_effect:
  "precise (toggle_precise s) = (\<not> precise s) \<and> motors (hw1 (toggle_precise s)) = motors (hw1 s)
   \<and> rows (scr (hw1 (toggle_precise s))) =
       (\<lambda>_. [])(0 := [TxtStr ''BASE: '' (position ArmBaseMotor (hw1 s))],
                 1 := [TxtStr ''MID:  '' (position ArmJointMotor (hw1 s))])
   \<and> precise (toggle_precise (toggle_precise s)) = precise s
   \<and> drive_mix1 (precise (toggle_precise (toggle_precise s))) y x = drive_mix1 (precise s) y x"
  by (simp add: toggle_precise_def print_position_def)

text \<open>
  C13. For a valid preset index, \<open>move_arm_to\<close> returns and sends exactly two position
  commands, base first and blocking, joint second and non-blocking: afterwards the base
  reads the preset's base angle, the joint is moving to the preset's joint angle, and no
  other motor is touched.
\<close>

theorem move_arm_to_preset:
  assumes "0 \<le> i" and "i < 2" and "(b, j) = PRESETS ! nat i"
  shows "\<exists>s'. move_arm_to i s = Inr s'
     \<and> effects (hw1 s') = effects (hw1 s) @ [MotorEff ArmBaseMotor (SpinToPosition b DEGREES 60 RPM True),
                                            MotorEff ArmJointMotor (SpinToPosition j DEGREES 60 RPM False)]
     \<and> position ArmBaseMotor (hw1 s') = b
     \<and> m_mode (motors (hw1 s') ArmJointMotor) = MovingTo j 60 RPM
     \<and> (\<forall>k. k \<noteq> ArmBaseMotor \<longrightarrow> k \<noteq> ArmJointMotor \<longrightarrow> motors (hw1 s') k = motors (hw1 s) k)"
proof -
  from assms have "py_index PRESETS i = Inr (b, j)"
    by (simp add: py_index_in_range PRESETS_def)
  then show ?thesis by (simp add: move_arm_to_Inr position_def)
qed

theorem move_arm_to_preset_witness:
  "\<exists>s'. move_arm_to 0 boot1 = Inr s'
     \<and> effects (hw1 s') = [MotorEff ArmBaseMotor (SpinToPosition 456.8 DEGREES 60 RPM True),
                          MotorEff ArmJointMotor (SpinToPosition 435.2 DEGREES 60 RPM False)]
     \<and> position ArmBaseMotor (hw1 s') = 456.8
     \<and> m_mode (motors (hw1 s') ArmJointMotor) = MovingTo 435.2 60 RPM
     \<and> (\<forall>k. k \<noteq> ArmBaseMotor \<longrightarrow> k \<noteq> ArmJointMotor \<longrightarrow> motors (hw1 s') k = motors (hw1 boot1) k)"
  using move_arm_to_preset [of 0 "456.8" "435.2" boot1] by (simp add: PRESETS_def boot1_def)

text \<open>
  C14. \<open>move_arm_to\<close> raises (\<open>IndexError\<close>) exactly for indices below \<open>-2\<close> or from
  \<open>2\<close> on; every other index returns normally.
\<close>

theorem move_arm_to_error_iff: "(\<exists>e. move_arm_to i s = Inl e) \<longleftrightarrow> i < -2 \<or> 2 \<le> i"
proof (cases "-2 \<le> i \<and> i < 2")
  case True
  then have "i = -2 \<or> i = -1 \<or> i = 0 \<or> i = 1" by (simp add: move_arm_to_valid_cases)
  then show ?thesis by (auto simp: move_arm_to_def py_index_def PRESETS_def)
next
  case False
  then show ?thesis by (auto simp: move_arm_to_def py_index_def PRESETS_def)
qed

text \<open>
  C15. Python's negative indexing makes \<open>move_arm_to(-1)\<close> and \<open>move_arm_to(-2)\<close> valid
  aliases of presets 1 and 0: they move the arm rather than being rejected.
\<close>

theorem move_arm_to_negative_index:
  assumes "-2 \<le> i" and "i < 0"
  shows "move_arm_to i s = move_arm_to (i + 2) s"
proof -
  from assms have "i = -2 \<or> i = -1" by arith
  then show ?thesis by (auto simp: move_arm_to_def py_index_def PRESETS_def)
qed

theorem move_arm_to_negative_index_witness: "move_arm_to (-1) boot1 = move_arm_to 1 boot1"
  using move_arm_to_negative_index [of "-1" boot1] by simp

text \<open>
  C16. \<open>recalibrate\<close> zeroes the position reference of the two arm joints, sends nothing
  else, and changes nothing else: the presets are measured from this zero.
\<close>

theorem recalibrate1_zeroes:
  "position ArmBaseMotor (hw1 (recalibrate1 s)) = 0 \<and> position ArmJointMotor (hw1 (recalibrate1 s)) = 0
   \<and> effects (hw1 (recalibrate1 s)) = effects (hw1 s) @ [MotorEff ArmBaseMotor ResetPosition, MotorEff ArmJointMotor ResetPosition]
   \<and> motors (hw1 (recalibrate1 s)) =
       (motors (hw1 s))(ArmBaseMotor := (motors (hw1 s) ArmBaseMotor)\<lparr>m_position := 0\<rparr>,
                        ArmJointMotor := (motors (hw1 s) ArmJointMotor)\<lparr>m_position := 0\<rparr>)
   \<and> precise (recalibrate1 s) = precise s"
  by (simp add: recalibrate1_def position_def)

text \<open>
  C17. Every jog binding drives its motor on the press edge at \<open>direction * percent\<close> and
  spins it at zero (not a brake) on the release edge, with \<open>FORWARD\<close> and no unit.
\<close>

theorem handler1_jog:
  assumes "(b, k, d, p) \<in> set jog_table1"
  shows "handler1 b Pressed s = Inr (control_motor1 d k p s)
       \<and> handler1 b Released s = Inr (control_motor1 0 k p s)
       \<and> m_mode (motors (hw1 (control_motor1 d k p s)) k) = Spinning FORWARD (of_int (d * p)) DefaultVelocityUnits
       \<and> m_mode (motors (hw1 (control_motor1 0 k p s)) k) = Spinning FORWARD 0 DefaultVelocityUnits"
  using assms by (auto simp: jog_table1_def control_motor1_def)

theorem handler1_jog_witness:
  "handler1 ButtonL2 Pressed boot1 = Inr (control_motor1 (-1) ArmBaseMotor 60 boot1)
   \<and> handler1 ButtonL2 Released boot1 = Inr (control_motor1 0 ArmBaseMotor 60 boot1)
   \<and> m_mode (motors (hw1 (control_motor1 (-1) ArmBaseMotor 60 boot1)) ArmBaseMotor) = Spinning FORWARD (-60) DefaultVelocityUnits
   \<and> m_mode (motors (hw1 (control_motor1 0 ArmBaseMotor 60 boot1)) ArmBaseMotor) = Spinning FORWARD 0 DefaultVelocityUnits"
  using handler1_jog [of ButtonL2 ArmBaseMotor "-1" 60 boot1] by (simp add: jog_table1_def)

text \<open>
  C18. Every button edge handler returns normally, flips \<open>precise\<close> only for button A's
  press, and never writes a drive motor nor any motor's idle behaviour: drive motors
  belong to the drive task alone.
\<close>

theorem handler1_total_no_drive:
  "\<exists>s'. handler1 b e s = Inr s' \<and> precise s' = (if b = ButtonA \<and> e = Pressed then \<not> precise s else precise s)
     \<and> motors (hw1 s') LeftDrive = motors (hw1 s) LeftDrive
     \<and> motors (hw1 s') RightDrive = motors (hw1 s) RightDrive"
  using handler1_cases_Inr [of b e s] by auto

text \<open>
  C19. One drive iteration writes only the two drive motors, keeps the flag and every idle
  behaviour, and ends with exactly one \<open>sleep(10)\<close> after the two drive commands.
\<close>

theorem drive_iter1_only_drive:
  assumes "k \<noteq> LeftDrive" and "k \<noteq> RightDrive"
  shows "motors (hw1 (drive_iter1 y x s)) k = motors (hw1 s) k \<and> precise (drive_iter1 y x s) = precise s
         \<and> (\<exists>cl cr. effects (hw1 (drive_iter1 y x s)) = effects (hw1 s) @ [MotorEff LeftDrive cl, MotorEff RightDrive cr, SleepEff 10])"
  using assms by (cases "drive_mix1 (precise s) y x") (simp_all add: drive_iter1_def Let_def)

theorem drive_iter1_only_drive_witness:
  "motors (hw1 (drive_iter1 50 0 boot1)) ClawMotor = motors (hw1 boot1) ClawMotor \<and> precise (drive_iter1 50 0 boot1) = precise boot1
   \<and> (\<exists>cl cr. effects (hw1 (drive_iter1 50 0 boot1)) = effects (hw1 boot1) @ [MotorEff LeftDrive cl, MotorEff RightDrive cr, SleepEff 10])"
  using drive_iter1_only_drive [of ClawMotor 50 0 boot1] by simp

text \<open>
  The drive loop run over \<open>n\<close> samples with no handler in between performs exactly
  \<open>n\<close> iterations of three effects each (left command, right command, sleep) and never
  changes the mode flag.
\<close>

lemma drive_loop1_runs:
  "precise (drive_loop1 ins s) = precise s
   \<and> length (effects (hw1 (drive_loop1 ins s))) = length (effects (hw1 s)) + 3 * length ins"
proof (induction ins arbitrary: s)
  case Nil
  then show ?case by simp
next
  case (Cons i ins)
  obtain y x where "i = (y, x)" by fastforce
  with Cons show ?case by (simp add: drive_iter1_effects_length drive_iter1_frame)
qed

end
