(* ===== verification/Session1.thy ===== *)
theory Session1
  imports Robot1
begin

text \<open>
  The running session of robot 1 (spec section 5): the drive thread and the button
  handlers interleave. VEX Python threads are cooperative, the drive loop yields only in
  \<open>sleep(10)\<close>, and a handler runs to completion, so a step of the session is one whole
  loop iteration, one whole handler, or the physical world moving a motor. The steps are
  labelled, so that claims can say which kind of step changed what. The session starts in
  \<open>init1\<close>, the state after the module's top level has run.
\<close>

datatype label1 = DriveL axis axis | EventL button edge | MotionL motor1 degrees

inductive step1 :: "robot1 \<Rightarrow> label1 \<Rightarrow> robot1 \<Rightarrow> bool" where
  drive: "\<bar>y\<bar> \<le> 100 \<Longrightarrow> \<bar>x\<bar> \<le> 100 \<Longrightarrow> step1 s (DriveL y x) (drive_iter1 y x s)"
| event: "handler1 b e s = Inr s' \<Longrightarrow> step1 s (EventL b e) s'"
| motion: "step1 s (MotionL k a) (s\<lparr>hw1 := env_move k a (hw1 s)\<rparr>)"

inductive reach1 :: "robot1 \<Rightarrow> bool" where
  init: "reach1 init1"
| step: "reach1 s \<Longrightarrow> step1 s l t \<Longrightarrow> reach1 t"

text \<open>What setup fixes for the whole session: construction parameters and idle behaviour.\<close>

definition config_ok1 :: "robot1 \<Rightarrow> bool" where
  "config_ok1 s \<longleftrightarrow>
     (\<forall>k. m_stopping (motors (hw1 s) k) = stopping_cfg1 k
        \<and> m_port (motors (hw1 s) k) = m_port (motor_decl1 k)
        \<and> m_gear (motors (hw1 s) k) = m_gear (motor_decl1 k)
        \<and> m_reversed (motors (hw1 s) k) = m_reversed (motor_decl1 k))"

text \<open>
  The shape of the effect log the session produces after setup: every command to a drive
  motor comes as one drive iteration's triple (left, right, \<open>sleep(10)\<close>) with both
  commands spins in \<open>PERCENT\<close> or both stops; other motors' commands and screen writes
  may come in between; nothing else sleeps.
\<close>

fun drive_pair :: "motor_cmd \<Rightarrow> motor_cmd \<Rightarrow> bool" where
  "drive_pair (Spin dl vl PERCENT) (Spin dr vr PERCENT) = True"
| "drive_pair Stop Stop = True"
| "drive_pair _ _ = False"

fun drive_log_ok :: "motor1 effect list \<Rightarrow> bool" where
  "drive_log_ok [] = True"
| "drive_log_ok (MotorEff LeftDrive cl # MotorEff RightDrive cr # SleepEff n # rest) =
     (n = 10 \<and> drive_pair cl cr \<and> drive_log_ok rest)"
| "drive_log_ok (MotorEff k c # rest) = (k \<noteq> LeftDrive \<and> k \<noteq> RightDrive \<and> drive_log_ok rest)"
| "drive_log_ok (SleepEff n # rest) = False"
| "drive_log_ok (ScreenEff op # rest) = drive_log_ok rest"

text \<open>Runs of the session: finite sequences of labelled steps.\<close>

inductive run1 :: "robot1 \<Rightarrow> label1 list \<Rightarrow> robot1 \<Rightarrow> bool" where
  nil: "run1 s [] s"
| cons: "step1 s l u \<Longrightarrow> run1 u ls t \<Longrightarrow> run1 s (l # ls) t"

text \<open>
  The motors whose mode a label may change: the two drive motors for a drive iteration,
  both arm joints for a preset button, the bound motor for a jog edge (from
  \<open>jog_table1\<close>), none for motion (which only moves the position).
\<close>

definition edge_motors1 :: "button \<Rightarrow> edge \<Rightarrow> motor1 list" where
  "edge_motors1 b e =
     (if (b = ButtonX \<or> b = ButtonY) \<and> e = Pressed then [ArmBaseMotor, ArmJointMotor]
      else map (\<lambda>(b', k, d, p). k) (filter (\<lambda>(b', _). b' = b) jog_table1))"

fun writes_mode1 :: "label1 \<Rightarrow> motor1 \<Rightarrow> bool" where
  "writes_mode1 (DriveL y x) k = (k = LeftDrive \<or> k = RightDrive)"
| "writes_mode1 (EventL b e) k = (k \<in> set (edge_motors1 b e))"
| "writes_mode1 (MotionL j a) k = False"

text \<open>
  The controller screen as \<open>print_position\<close> leaves it: the base angle on row 0, the
  joint angle on row 1, the cursor at the start of row 1.
\<close>

definition debug_screen1 :: "degrees \<Rightarrow> degrees \<Rightarrow> screen" where
  "debug_screen1 b j = \<lparr>cur_row = 1, cur_col = 0,
     rows = (\<lambda>_. [])(0 := [TxtStr ''BASE: '' b], 1 := [TxtStr ''MID:  '' j])\<rparr>"

inductive_cases step1_DriveE: "step1 s (DriveL y x) t"
inductive_cases step1_EventE: "step1 s (EventL b e) t"
inductive_cases step1_MotionE: "step1 s (MotionL k a) t"

subsection \<open>Helper lemmas\<close>

lemma config_ok1_init: "config_ok1 init1"
  unfolding config_ok1_def
proof
  fix k
  show "m_stopping (motors (hw1 init1) k) = stopping_cfg1 k
        \<and> m_port (motors (hw1 init1) k) = m_port (motor_decl1 k)
        \<and> m_gear (motors (hw1 init1) k) = m_gear (motor_decl1 k)
        \<and> m_reversed (motors (hw1 init1) k) = m_reversed (motor_decl1 k)"
    by (cases k) (simp_all add: init1_def setup1_def boot1_def new_motor_def)
qed

text \<open>A step changes a motor only through \<open>motor_exec\<close> or the world's motion.\<close>

lemma step1_motor_shape:
  assumes "step1 s l t"
  shows "m_stopping (motors (hw1 t) k) = m_stopping (motors (hw1 s) k)
       \<and> m_port (motors (hw1 t) k) = m_port (motors (hw1 s) k)
       \<and> m_gear (motors (hw1 t) k) = m_gear (motors (hw1 s) k)
       \<and> m_reversed (motors (hw1 t) k) = m_reversed (motors (hw1 s) k)"
  using assms
proof cases
  case (drive y x)
  then show ?thesis
    by (cases "drive_mix1 (precise s) y x") (simp_all add: drive_iter1_def Let_def)
next
  case (event b e)
  then show ?thesis using handler1_cases_Inr [of b e s] by auto
next
  case (motion k' a)
  then show ?thesis by (simp add: env_move_def)
qed

lemma step1_config_ok:
  assumes "step1 s l t" and "config_ok1 s"
  shows "config_ok1 t"
  using assms(2) by (simp add: config_ok1_def step1_motor_shape [OF assms(1)])

lemma reach1_config_ok: "reach1 s \<Longrightarrow> config_ok1 s"
proof (induction rule: reach1.induct)
  case init
  show ?case by (rule config_ok1_init)
next
  case (step s l t)
  then show ?case by (blast intro: step1_config_ok)
qed

lemma precise_step1:
  assumes "step1 s l t"
  shows "precise t = (if l = EventL ButtonA Pressed then \<not> precise s else precise s)"
  using assms
proof cases
  case (drive y x)
  then show ?thesis by (simp add: drive_iter1_def)
next
  case (event b e)
  then show ?thesis using handler1_cases_Inr [of b e s] by auto
next
  case (motion k a)
  then show ?thesis by simp
qed

lemma drive_log_ok_other [simp]:
  "k \<noteq> LeftDrive \<Longrightarrow> drive_log_ok (MotorEff k c # rest) = (k \<noteq> RightDrive \<and> drive_log_ok rest)"
  by (cases k) simp_all

lemma drive_log_ok_append: "drive_log_ok xs \<Longrightarrow> drive_log_ok ys \<Longrightarrow> drive_log_ok (xs @ ys)"
  by (induction xs rule: drive_log_ok.induct) auto

lemma step1_log:
  assumes "step1 s l t"
  shows "\<exists>new. effects (hw1 t) = effects (hw1 s) @ new \<and> drive_log_ok new"
  using assms
proof cases
  case (drive y x)
  then show ?thesis by (cases "drive_mix1 (precise s) y x") (simp_all add: drive_iter1_def)
next
  case (event b e)
  then show ?thesis
    by (cases b; cases e)
       (auto simp: toggle_precise_def print_position_def recalibrate1_def control_motor1_def
                   move_arm_to_def py_index_def PRESETS_def)
next
  case (motion k a)
  then show ?thesis by (intro exI [of _ "[]"]) simp
qed

lemma step1_mode_frame:
  assumes "step1 s l t" and "\<not> writes_mode1 l k"
  shows "m_mode (motors (hw1 t) k) = m_mode (motors (hw1 s) k)"
  using assms
proof cases
  case (drive y x)
  with assms(2) show ?thesis by (cases "drive_mix1 (precise s) y x") (simp_all add: drive_iter1_def)
next
  case (event b e)
  with assms(2) show ?thesis
    by (cases b; cases e)
       (auto simp: edge_motors1_def jog_table1_def toggle_precise_def print_position_def
                   recalibrate1_def control_motor1_def move_arm_to_def py_index_def PRESETS_def)
next
  case (motion j a)
  then show ?thesis by (simp add: env_move_def)
qed

subsection \<open>Session properties\<close>

text \<open>
  C30. In every reachable state of the session every motor keeps the construction
  parameters of lines 11-19 and the idle behaviour of lines 129-140: no handler and no
  drive iteration reconfigures a motor.
\<close>

theorem reach1_config:
  assumes "reach1 s"
  shows "m_stopping (motors (hw1 s) k) = stopping_cfg1 k \<and> m_port (motors (hw1 s) k) = m_port (motor_decl1 k)
         \<and> m_reversed (motors (hw1 s) k) = m_reversed (motor_decl1 k)"
  using reach1_config_ok [OF assms] by (simp add: config_ok1_def)

theorem reach1_config_witness:
  "m_stopping (motors (hw1 init1) LeftDrive) = BRAKE \<and> m_port (motors (hw1 init1) LeftDrive) = 20
   \<and> m_reversed (motors (hw1 init1) LeftDrive) = False"
  using reach1_config [OF reach1.init, of LeftDrive] by (simp add: new_motor_def)

text \<open>
  C31. In every reachable state, a drive iteration whose axes are in the deadband stops
  both drive motors with brake, never letting them coast.
\<close>

theorem reach1_stop_brakes:
  assumes "reach1 s" and "\<bar>y\<bar> \<le> 5" and "\<bar>x\<bar> \<le> 15"
  shows "m_mode (motors (hw1 (drive_iter1 y x s)) LeftDrive) = Stopped BRAKE
       \<and> m_mode (motors (hw1 (drive_iter1 y x s)) RightDrive) = Stopped BRAKE"
proof -
  from assms(2,3) have "drive_mix1 (precise s) y x = DriveStop"
    by (simp add: drive_mix1_profile mix_profile_Halt_iff manoeuvre_Halt_iff)
  moreover have "m_stopping (motors (hw1 s) LeftDrive) = BRAKE"
    and "m_stopping (motors (hw1 s) RightDrive) = BRAKE"
    using reach1_config_ok [OF assms(1)] by (simp_all add: config_ok1_def)
  ultimately show ?thesis by (simp add: drive_iter1_def Let_def)
qed

theorem reach1_stop_brakes_witness:
  "m_mode (motors (hw1 (drive_iter1 0 0 init1)) LeftDrive) = Stopped BRAKE
   \<and> m_mode (motors (hw1 (drive_iter1 0 0 init1)) RightDrive) = Stopped BRAKE"
  using reach1_stop_brakes [OF reach1.init, of 0 0] by simp

text \<open>
  The precise flag changes in exactly one kind of step, the press of button A
  (\<open>Input1\<close> lifts this to button levels).
\<close>

lemma step1_precise_only_A:
  assumes "step1 s l t"
  shows "precise t \<noteq> precise s \<longleftrightarrow> l = EventL ButtonA Pressed"
  using precise_step1 [OF assms] by auto

text \<open>
  C11. Bounds on the display: in every reachable state of the session the controller
  screen is blank or shows exactly the last debug snapshot, the base angle alone on row 0
  and the joint angle alone on row 1, with the cursor on row 1. Robot 1 never uses more
  than two rows of the controller's three, and repeated toggles never accumulate text.
\<close>

theorem reach1_screen:
  assumes "reach1 s"
  shows "scr (hw1 s) = blank_screen \<or> (\<exists>b j. scr (hw1 s) = debug_screen1 b j)"
  using assms
proof (induction rule: reach1.induct)
  case init
  show ?case by (simp add: init1_def setup1_def boot1_def)
next
  case (step s l t)
  from step.hyps(2) show ?case
  proof cases
    case (drive y x)
    with step.IH show ?thesis by (simp add: drive_iter1_def)
  next
    case (event b e)
    show ?thesis
    proof (cases "b = ButtonA \<and> e = Pressed")
      case True
      with event have "scr (hw1 t) = debug_screen1 (position ArmBaseMotor (hw1 s)) (position ArmJointMotor (hw1 s))"
        by (auto simp: toggle_precise_def print_position_def debug_screen1_def fun_eq_iff)
      then show ?thesis by blast
    next
      case False
      with event have "scr (hw1 t) = scr (hw1 s)"
        by (cases b; cases e)
           (auto simp: recalibrate1_def control_motor1_def move_arm_to_def py_index_def PRESETS_def)
      with step.IH show ?thesis by simp
    qed
  next
    case (motion k a)
    with step.IH show ?thesis by simp
  qed
qed

theorem reach1_screen_witness:
  "scr (hw1 (toggle_precise init1)) = blank_screen \<or> (\<exists>b j. scr (hw1 (toggle_precise init1)) = debug_screen1 b j)"
proof -
  have "reach1 (toggle_precise init1)"
    by (rule reach1.step [OF reach1.init step1.event [where b = ButtonA and e = Pressed]]) simp
  then show ?thesis by (rule reach1_screen)
qed

text \<open>
  C36. Well-formedness of the effect log: in every reachable state, after the setup
  commands of the module's top level, every drive-motor command in the log belongs to a
  whole drive iteration (left, right, \<open>sleep(10)\<close>, both spins in percent or both
  stops); handlers contribute only other motors' commands and screen writes.
\<close>

theorem reach1_log_wf:
  assumes "reach1 s"
  shows "\<exists>tail. effects (hw1 s) = effects (hw1 init1) @ tail \<and> drive_log_ok tail"
  using assms
proof (induction rule: reach1.induct)
  case init
  show ?case by (intro exI [of _ "[]"]) simp
next
  case (step s l t)
  from step.IH obtain tail where "effects (hw1 s) = effects (hw1 init1) @ tail" "drive_log_ok tail"
    by blast
  moreover from step1_log [OF step.hyps(2)] obtain new
    where "effects (hw1 t) = effects (hw1 s) @ new" "drive_log_ok new" by blast
  ultimately show ?case by (intro exI [of _ "tail @ new"]) (simp add: drive_log_ok_append)
qed

theorem reach1_log_wf_witness:
  "\<exists>tail. effects (hw1 (drive_iter1 50 0 init1)) = effects (hw1 init1) @ tail \<and> drive_log_ok tail"
proof -
  have "reach1 (drive_iter1 50 0 init1)"
    by (rule reach1.step [OF reach1.init step1.drive]) simp_all
  then show ?thesis by (rule reach1_log_wf)
qed

text \<open>
  C38. Interleaving: along any run of the session, a motor's mode changes only through a
  step whose label may write it. In particular a jog motor keeps spinning at the pressed
  power through any number of drive iterations, other buttons' edges and motions until an
  edge of one of its own buttons (the release) arrives: drive loop and jog never interfere.
\<close>

theorem run1_mode_frame:
  assumes "run1 s ls t" and "\<not> list_ex (\<lambda>l. writes_mode1 l k) ls"
  shows "m_mode (motors (hw1 t) k) = m_mode (motors (hw1 s) k)"
  using assms
proof (induction rule: run1.induct)
  case (nil s)
  then show ?case by simp
next
  case (cons s l u ls t)
  then show ?case using step1_mode_frame [OF cons.hyps(1)] by simp
qed

theorem run1_mode_frame_witness:
  "\<exists>t. run1 (control_motor1 1 ArmBaseMotor 60 init1)
          [DriveL 50 0, EventL ButtonA Pressed, MotionL ArmBaseMotor 10] t
       \<and> m_mode (motors (hw1 t) ArmBaseMotor) = Spinning FORWARD 60 DefaultVelocityUnits"
proof -
  define s0 where "s0 = control_motor1 1 ArmBaseMotor 60 init1"
  define u1 where "u1 = drive_iter1 50 0 s0"
  define u2 where "u2 = toggle_precise u1"
  define u3 where "u3 = u2\<lparr>hw1 := env_move ArmBaseMotor 10 (hw1 u2)\<rparr>"
  have "run1 s0 [DriveL 50 0, EventL ButtonA Pressed, MotionL ArmBaseMotor 10] u3"
  proof (rule run1.cons)
    show "step1 s0 (DriveL 50 0) u1" unfolding u1_def by (rule step1.drive) simp_all
    show "run1 u1 [EventL ButtonA Pressed, MotionL ArmBaseMotor 10] u3"
    proof (rule run1.cons)
      show "step1 u1 (EventL ButtonA Pressed) u2" unfolding u2_def by (rule step1.event) simp
      show "run1 u2 [MotionL ArmBaseMotor 10] u3"
        unfolding u3_def by (rule run1.cons [OF step1.motion run1.nil])
    qed
  qed
  moreover have "\<not> list_ex (\<lambda>l. writes_mode1 l ArmBaseMotor) [DriveL 50 0, EventL ButtonA Pressed, MotionL ArmBaseMotor 10]"
    by (simp add: edge_motors1_def jog_table1_def)
  ultimately have "m_mode (motors (hw1 u3) ArmBaseMotor) = m_mode (motors (hw1 s0) ArmBaseMotor)"
    by (rule run1_mode_frame)
  then have "m_mode (motors (hw1 u3) ArmBaseMotor) = Spinning FORWARD 60 DefaultVelocityUnits"
    by (simp add: s0_def control_motor1_def)
  with \<open>run1 s0 _ u3\<close> show ?thesis unfolding s0_def by blast
qed

end
