(* ===== verification/Intent1.thy ===== *)
theory Intent1
  imports Session1
begin

text \<open>
  An abstract specification of robot 1's session, written from the spec's contracts
  (sections 4.1-4.5 and the ownership rule of section 5) rather than from the code: the
  operator's intent. Its state is the mode flag and, for every motor, the kind of
  command it is under (free, a velocity, a position target, halted); its events are a
  drive cycle, the mode toggle, a jog to a signed velocity, a preset move and a step that
  changes no intent. A drive cycle is nondeterministic: it may put the two drive motors
  under any commands that stop exactly in the deadband, rotate in place with opposite
  velocities, drive straight with equal velocities in the stick's direction, and turn
  the way the turn stick points. The concrete session \<open>step1\<close> refines this machine
  through the abstraction \<open>abs1\<close> (forget positions, screen, log, idle behaviours and
  units) and the event map \<open>intent_of1\<close>, a functional simulation in the style of
  event-system refinement; invariants of the abstract machine then hold of every reachable
  concrete state.
\<close>

datatype intent = Free | Velocity real | Target degrees | Halted

primrec mode_intent :: "motor_mode \<Rightarrow> intent" where
  "mode_intent Idle = Free"
| "mode_intent (Spinning d v u) = Velocity (signed_vel d v)"
| "mode_intent (MovingTo t v u) = Target t"
| "mode_intent (Stopped b) = Halted"

text \<open>What a motor's last command asks of it, with signed velocities.\<close>

record intent1 =
  a_precise :: bool
  a_intent :: "motor1 \<Rightarrow> intent"

definition abs1 :: "robot1 \<Rightarrow> intent1" where
  "abs1 s = \<lparr>a_precise = precise s, a_intent = (\<lambda>k. mode_intent (m_mode (motors (hw1 s) k)))\<rparr>"

definition intent_init1 :: intent1 where
  "intent_init1 = \<lparr>a_precise = False, a_intent = (\<lambda>_. Free)\<rparr>"

text \<open>The drive contract: the spec's nine outcomes, up to the numbers.\<close>

datatype alabel1 = ADrive axis axis | AToggle | AJog motor1 real | APreset nat | ASkip

fun drive_contract :: "axis \<Rightarrow> axis \<Rightarrow> intent \<Rightarrow> intent \<Rightarrow> bool" where
  "drive_contract y x (Velocity vl) (Velocity vr) =
     (if \<bar>y\<bar> \<le> 5 then 15 < \<bar>x\<bar> \<and> vr = - vl \<and> sgn (vl - vr) = of_int (steer_intent y x)
      else if \<bar>x\<bar> \<le> 5 then vl = vr \<and> sgn vl = of_int (sgn y)
      else sgn (vl - vr) = of_int (steer_intent y x))"
| "drive_contract y x Halted Halted = (\<bar>y\<bar> \<le> 5 \<and> \<bar>x\<bar> \<le> 15)"
| "drive_contract y x _ _ = False"

text \<open>
  The abstract events. A jog may address only a motor of the binding table and a preset
  only a valid index (spec 4.4: the bindings guarantee it); the base's blocking move ends
  with the base holding, the joint's move is still under way.
\<close>

inductive astep1 :: "intent1 \<Rightarrow> alabel1 \<Rightarrow> intent1 \<Rightarrow> bool" where
  drive: "drive_contract y x il ir \<Longrightarrow>
          astep1 a (ADrive y x) (a\<lparr>a_intent := (a_intent a)(LeftDrive := il, RightDrive := ir)\<rparr>)"
| toggle: "astep1 a AToggle (a\<lparr>a_precise := \<not> a_precise a\<rparr>)"
| jog: "(b, k, d, p) \<in> set jog_table1 \<Longrightarrow>
        astep1 a (AJog k v) (a\<lparr>a_intent := (a_intent a)(k := Velocity v)\<rparr>)"
| preset: "i < length PRESETS \<Longrightarrow>
           astep1 a (APreset i) (a\<lparr>a_intent := (a_intent a)(ArmBaseMotor := Halted,
                                      ArmJointMotor := Target (snd (PRESETS ! i)))\<rparr>)"
| skip: "astep1 a ASkip a"

inductive arun1 :: "intent1 \<Rightarrow> alabel1 list \<Rightarrow> intent1 \<Rightarrow> bool" where
  nil: "arun1 a [] a"
| cons: "astep1 a l b \<Longrightarrow> arun1 b ls c \<Longrightarrow> arun1 a (l # ls) c"

text \<open>
  The event map: a drive iteration is a drive cycle; button A's press the toggle; X and Y
  the presets 0 and 1; a jog edge of the binding table a jog to \<open>direction * percent\<close>
  on the press and to 0 on the release (spec 4.3: spin at zero, not brake); calibration,
  unbound edges and the world's motion change no intent.
\<close>

definition jog_intent1 :: "button \<Rightarrow> edge \<Rightarrow> alabel1" where
  "jog_intent1 b e =
     (case filter (\<lambda>(b', _). b' = b) jog_table1 of
        (_, k, d, p) # _ \<Rightarrow> AJog k (if e = Pressed then of_int (d * p) else 0)
      | [] \<Rightarrow> ASkip)"

fun intent_of1 :: "label1 \<Rightarrow> alabel1" where
  "intent_of1 (DriveL y x) = ADrive y x"
| "intent_of1 (EventL ButtonA Pressed) = AToggle"
| "intent_of1 (EventL ButtonX Pressed) = APreset 0"
| "intent_of1 (EventL ButtonY Pressed) = APreset 1"
| "intent_of1 (EventL b e) = jog_intent1 b e"
| "intent_of1 (MotionL k a) = ASkip"

text \<open>The intents a drive command puts the left and right motor under.\<close>

primrec out_intents :: "drive_out \<Rightarrow> intent \<times> intent" where
  "out_intents (DriveSpin dl vl dr vr) = (Velocity (signed_vel dl vl), Velocity (signed_vel dr vr))"
| "out_intents DriveStop = (Halted, Halted)"

text \<open>
  Ownership (spec 5): which kinds of command each motor may be under. The tray has no
  binding; jog motors are only ever spun, so the claw and the scoop never brake; only the
  arm joint moves to a position without blocking, and only to a preset's joint angle;
  only the drive motors and the blocking base end halted.
\<close>

fun allowed1 :: "motor1 \<Rightarrow> intent \<Rightarrow> bool" where
  "allowed1 k Free = True"
| "allowed1 k (Velocity v) = (k \<noteq> TrayMotor)"
| "allowed1 k (Target t) = (k = ArmJointMotor \<and> t \<in> set (map snd PRESETS))"
| "allowed1 k Halted = (k = LeftDrive \<or> k = RightDrive \<or> k = ArmBaseMotor)"

definition intent_ok1 :: "intent1 \<Rightarrow> bool" where
  "intent_ok1 a \<longleftrightarrow> (\<forall>k. allowed1 k (a_intent a k))"

subsection \<open>Simulation and the abstract invariant\<close>

lemma drive_contract_mix1:
  "drive_contract y x (fst (out_intents (drive_mix1 p y x))) (snd (out_intents (drive_mix1 p y x)))"
  by (auto simp: drive_mix1_def Let_def steer_intent_def sgn_if)

lemma abs1_drive_iter1:
  "abs1 (drive_iter1 y x s) = (abs1 s)\<lparr>a_intent := (a_intent (abs1 s))(LeftDrive := fst (out_intents (drive_mix1 (precise s) y x)),
        RightDrive := snd (out_intents (drive_mix1 (precise s) y x)))\<rparr>"
  by (cases "drive_mix1 (precise s) y x") (auto simp: abs1_def drive_iter1_def Let_def)

inductive_simps astep1_simps:
  "astep1 a (ADrive y x) b" "astep1 a AToggle b" "astep1 a (AJog k v) b"
  "astep1 a (APreset i) b" "astep1 a ASkip b"

lemma abs1_env_move [simp]: "abs1 (s\<lparr>hw1 := env_move k a (hw1 s)\<rparr>) = abs1 s"
  by (simp add: abs1_def env_move_def fun_eq_iff)

lemma abs1_init1: "abs1 init1 = intent_init1"
proof -
  have "mode_intent (m_mode (motors (hw1 init1) k)) = Free" for k
    by (cases k) (simp_all add: init1_def setup1_def boot1_def new_motor_def)
  then show ?thesis by (simp add: abs1_def intent_init1_def fun_eq_iff init1_def setup1_def boot1_def)
qed

lemma astep1_intent_ok:
  assumes "astep1 a l b" and "intent_ok1 a"
  shows "intent_ok1 b"
  using assms
proof cases
  case (drive y x il ir)
  with assms(2) show ?thesis by (cases il; cases ir) (auto simp: intent_ok1_def)
next
  case (jog b k d p v)
  with assms(2) show ?thesis by (auto simp: intent_ok1_def jog_table1_def)
qed (auto simp: intent_ok1_def)

lemma arun1_intent_ok: "arun1 a ls b \<Longrightarrow> intent_ok1 a \<Longrightarrow> intent_ok1 b"
  by (induction rule: arun1.induct) (auto intro: astep1_intent_ok)

subsection \<open>Properties\<close>

text \<open>
  C4. Ownership: in every reachable state of robot 1's session each motor is under a kind of command its owner may issue: the tray is never
  commanded, the claw and the snow scoop are never stopped or sent to a position (a jog
  release spins at 0 percent), only the arm joint is ever moving to a position, and then
  to the joint angle of one of the presets (435.2 or 345.2 degrees), and only
  the drive motors and the arm base are ever halted. This is the abstract machine's
  invariant \<open>intent_ok1\<close> (kept by every abstract step, \<open>arun1_intent_ok\<close>) read on
  the code through \<open>abs1\<close>, proved here by rule induction on the code's own steps.
\<close>

theorem reach1_owners:
  assumes "reach1 s"
  shows "allowed1 k (mode_intent (m_mode (motors (hw1 s) k)))"
  using assms
proof (induction arbitrary: k rule: reach1.induct)
  case init
  show ?case by (cases k) (simp_all add: init1_def setup1_def boot1_def new_motor_def)
next
  case (step s l t)
  from step.hyps(2) show ?case
  proof cases
    case (drive y x)
    with step.IH show ?thesis
      by (cases "drive_mix1 (precise s) y x") (auto simp: drive_iter1_def Let_def)
  next
    case (event b e)
    with step.IH show ?thesis
      by (cases b; cases e)
         (auto simp: toggle_precise_def recalibrate1_def control_motor1_def move_arm_to_def
                     py_index_def PRESETS_def)
  next
    case (motion j a)
    with step.IH show ?thesis by (simp add: env_move_def)
  qed
qed

theorem reach1_owners_witness:
  "\<exists>s'. handler1 ButtonY Pressed init1 = Inr s'
        \<and> mode_intent (m_mode (motors (hw1 s') ArmJointMotor)) = Target (1726 / 5)
        \<and> allowed1 ArmJointMotor (mode_intent (m_mode (motors (hw1 s') ArmJointMotor)))
        \<and> mode_intent (m_mode (motors (hw1 s') ArmBaseMotor)) = Halted
        \<and> allowed1 ArmBaseMotor (mode_intent (m_mode (motors (hw1 s') ArmBaseMotor)))"
proof -
  define s' where "s' = init1\<lparr>hw1 := issue ArmJointMotor (SpinToPosition (1726 / 5) DEGREES 60 RPM False)
                         (issue ArmBaseMotor (SpinToPosition (2138 / 5) DEGREES 60 RPM True) (hw1 init1))\<rparr>"
  have h: "handler1 ButtonY Pressed init1 = Inr s'"
    by (simp add: s'_def move_arm_to_def py_index_def PRESETS_def)
  have r: "reach1 s'" by (rule reach1.step [OF reach1.init step1.event [OF h]])
  have "allowed1 ArmJointMotor (mode_intent (m_mode (motors (hw1 s') ArmJointMotor)))"
    and "allowed1 ArmBaseMotor (mode_intent (m_mode (motors (hw1 s') ArmBaseMotor)))"
    using reach1_owners [OF r] by blast+
  moreover have "mode_intent (m_mode (motors (hw1 s') ArmJointMotor)) = Target (1726 / 5)"
    and "mode_intent (m_mode (motors (hw1 s') ArmBaseMotor)) = Halted"
    by (simp_all add: s'_def)
  ultimately show ?thesis using h by blast
qed

text \<open>
  C20. Refinement: every run of robot 1's session from the module's setup is, under the
  abstraction \<open>abs1\<close>, a run of the operator-intent machine on the mapped events: the
  drive loop meets the drive contract on every input, the handlers do what the spec's
  contracts say, and no step changes an intent it does not own.
\<close>

theorem session1_refines_intent:
  assumes "run1 init1 ls t"
  shows "arun1 intent_init1 (map intent_of1 ls) (abs1 t)"
proof -
  have "arun1 (abs1 s) (map intent_of1 ls) (abs1 t)" if "run1 s ls t" for s ls t
    using that
  proof (induction rule: run1.induct)
    case (nil s)
    show ?case by (simp add: arun1.nil)
  next
    case (cons s l u ls t)
    from cons.hyps(1) have "astep1 (abs1 s) (intent_of1 l) (abs1 u)"
    proof cases
      case (drive y x)
      then show ?thesis by (auto simp: abs1_drive_iter1 intro!: astep1.drive drive_contract_mix1)
    next
      case (event b e)
      then show ?thesis
        by (cases b; cases e)
           (auto simp: astep1_simps abs1_def fun_eq_iff toggle_precise_def recalibrate1_def
                       control_motor1_def move_arm_to_def py_index_def PRESETS_def
                       jog_intent1_def jog_table1_def)
    next
      case (motion k a)
      then show ?thesis by (simp add: astep1.skip)
    qed
    with cons.IH show ?case by (simp add: arun1.cons)
  qed
  from this [OF assms] show ?thesis by (simp add: abs1_init1)
qed

theorem session1_refines_intent_witness:
  "arun1 intent_init1 [AJog ArmBaseMotor 60, ADrive 50 0]
     (abs1 (drive_iter1 50 0 (control_motor1 1 ArmBaseMotor 60 init1)))"
proof -
  have "run1 init1 [EventL ButtonL1 Pressed, DriveL 50 0] (drive_iter1 50 0 (control_motor1 1 ArmBaseMotor 60 init1))"
    by (rule run1.cons [OF step1.event run1.cons [OF step1.drive run1.nil]]) simp_all
  from session1_refines_intent [OF this] show ?thesis by (simp add: jog_intent1_def jog_table1_def)
qed

end
