(* ===== verification/Input1.thy ===== *)
theory Input1
  imports Session1
begin

text \<open>
  Robot 1's session driven by the input sampler (the VEX controller of \<open>Vex\<close>): the
  state pairs the last controller sample with the program state. A poll takes a new
  sample and runs, in order, the handler bound to each edge the dispatcher derives from
  the two samples (lines 142-173); a cycle is one iteration of \<open>drive_task\<close> reading
  the sampled axes (lines 65-66: \<open>controller.axis3.position()\<close>,
  \<open>controller.axis1.position()\<close>); the world may move a motor. Every step of this
  machine is a run of \<open>step1\<close>, so every state it reaches is a reachable state of
  \<open>Session1\<close> and the session's invariants hold of it; on top, claims can speak of
  button levels: holding a button, overlapping presses.
\<close>

record isess1 =
  pad1 :: pad
  rob1 :: robot1

text \<open>
  The callbacks of one poll, in the dispatcher's order; a callback that raised would end
  the dispatch (none does, see \<open>handler1_total_no_drive\<close>).
\<close>

fun run_handlers1 :: "(button \<times> edge) list \<Rightarrow> robot1 \<Rightarrow> py_error + robot1" where
  "run_handlers1 [] s = Inr s"
| "run_handlers1 ((b, e) # es) s =
     (case handler1 b e s of
        Inl err \<Rightarrow> Inl err
      | Inr s' \<Rightarrow> run_handlers1 es s')"

datatype ilabel1 = Poll pad | Cycle | Move motor1 degrees

inductive istep1 :: "isess1 \<Rightarrow> ilabel1 \<Rightarrow> isess1 \<Rightarrow> bool" where
  poll: "pad_ok p \<Longrightarrow> run_handlers1 (pad_edges (held (pad1 c)) (held p)) (rob1 c) = Inr s' \<Longrightarrow>
         istep1 c (Poll p) \<lparr>pad1 = p, rob1 = s'\<rparr>"
| cycle: "istep1 c Cycle (c\<lparr>rob1 := drive_iter1 (axis3 (pad1 c)) (axis1 (pad1 c)) (rob1 c)\<rparr>)"
| move: "istep1 c (Move k a) (c\<lparr>rob1 := (rob1 c)\<lparr>hw1 := env_move k a (hw1 (rob1 c))\<rparr>\<rparr>)"

inductive irun1 :: "isess1 \<Rightarrow> ilabel1 list \<Rightarrow> isess1 \<Rightarrow> bool" where
  nil: "irun1 c [] c"
| cons: "istep1 c l d \<Longrightarrow> irun1 d ls e \<Longrightarrow> irun1 c (l # ls) e"

definition isess_init1 :: isess1 where
  "isess_init1 = \<lparr>pad1 = \<lparr>axis1 = 0, axis3 = 0, held = (\<lambda>_. False)\<rparr>, rob1 = init1\<rparr>"

text \<open>Rising edges of a button along a sequence of steps, from a given level.\<close>

fun presses :: "button \<Rightarrow> (button \<Rightarrow> bool) \<Rightarrow> ilabel1 list \<Rightarrow> nat" where
  "presses b h [] = 0"
| "presses b h (Poll p # ls) = (if \<not> h b \<and> held p b then 1 else 0) + presses b (held p) ls"
| "presses b h (_ # ls) = presses b h ls"

lemma run_handlers1_append:
  "run_handlers1 (xs @ ys) s = (case run_handlers1 xs s of Inl e \<Rightarrow> Inl e | Inr s' \<Rightarrow> run_handlers1 ys s')"
  by (induction xs s rule: run_handlers1.induct) (auto split: sum.split)

lemma run_handlers1_run1: "run_handlers1 es s = Inr t \<Longrightarrow> run1 s (map (\<lambda>(b, e). EventL b e) es) t"
proof (induction es s rule: run_handlers1.induct)
  case (1 s)
  then show ?case by (simp add: run1.nil)
next
  case (2 b e es s)
  then show ?case by (auto intro: run1.cons step1.event split: sum.splits)
qed

lemma run_handlers1_total: "\<exists>t. run_handlers1 es s = Inr t"
proof (induction es arbitrary: s)
  case Nil
  then show ?case by simp
next
  case (Cons be es)
  obtain b e where "be = (b, e)" by fastforce
  moreover obtain s' where "handler1 b e s = Inr s'" using handler1_cases_Inr [of b e s] by blast
  ultimately show ?case using Cons.IH [of s'] by simp
qed

lemma run_handlers1_mode_frame:
  "run_handlers1 es s = Inr t \<Longrightarrow> list_all (\<lambda>(b, e). k \<notin> set (edge_motors1 b e)) es \<Longrightarrow>
   m_mode (motors (hw1 t) k) = m_mode (motors (hw1 s) k)"
proof (induction es s rule: run_handlers1.induct)
  case (1 s)
  then show ?case by simp
next
  case (2 b e es s)
  then obtain s' where h: "handler1 b e s = Inr s'" and r: "run_handlers1 es s' = Inr t"
    by (auto split: sum.splits)
  have "m_mode (motors (hw1 s') k) = m_mode (motors (hw1 s) k)"
    using step1_mode_frame [OF step1.event [OF h]] 2(3) by simp
  with 2 h r show ?case by simp
qed

lemma run1_reach1: "run1 s ls t \<Longrightarrow> reach1 s \<Longrightarrow> reach1 t"
  by (induction rule: run1.induct) (auto intro: reach1.step)

lemma istep1_run1:
  assumes "istep1 c l d" and "pad_ok (pad1 c)"
  shows "pad_ok (pad1 d) \<and> (\<exists>ls. run1 (rob1 c) ls (rob1 d))"
  using assms(1)
proof cases
  case (poll p s')
  then show ?thesis by (auto dest: run_handlers1_run1)
next
  case cycle
  with assms(2) have "step1 (rob1 c) (DriveL (axis3 (pad1 c)) (axis1 (pad1 c))) (rob1 d)"
    by (auto simp: pad_ok_def intro: step1.drive)
  with cycle assms(2) show ?thesis by (auto intro: run1.cons run1.nil)
next
  case (move k a)
  with assms(2) show ?thesis by (auto intro: run1.cons run1.nil step1.motion)
qed

lemma irun1_reach1:
  "irun1 c ls d \<Longrightarrow> pad_ok (pad1 c) \<Longrightarrow> reach1 (rob1 c) \<Longrightarrow> reach1 (rob1 d)"
proof (induction rule: irun1.induct)
  case (nil c)
  then show ?case by simp
next
  case (cons c l d ls e)
  from istep1_run1 [OF cons.hyps(1) cons.prems(1)] obtain xs
    where "pad_ok (pad1 d)" "run1 (rob1 c) xs (rob1 d)" by blast
  with cons show ?case by (blast intro: run1_reach1)
qed

lemma run_handlers1_precise:
  "run_handlers1 es s = Inr t \<Longrightarrow>
   precise t = (precise s \<noteq> odd (length (filter (\<lambda>be. be = (ButtonA, Pressed)) es)))"
proof (induction es s rule: run_handlers1.induct)
  case (1 s)
  then show ?case by simp
next
  case (2 b e es s)
  obtain s' where h: "handler1 b e s = Inr s'"
    and p: "precise s' = (if b = ButtonA \<and> e = Pressed then \<not> precise s else precise s)"
    using handler1_cases_Inr [of b e s] by blast
  with 2 show ?case by auto
qed

lemma filter_A_pad_edges:
  "length (filter (\<lambda>be. be = (ButtonA, Pressed)) (pad_edges old new)) = (if \<not> old ButtonA \<and> new ButtonA then 1 else 0)"
  by (simp add: pad_edges_def all_buttons_def)

subsection \<open>Properties\<close>

text \<open>
  C32. Edge, not level (spec 4.2): along any run of the polled session, precise mode ends
  flipped exactly when button A went down an odd number of times; how many polls it was
  held for, and every other button, axis, drive cycle and motion, play no part.
\<close>

theorem irun1_precise_parity:
  assumes "irun1 c ls d"
  shows "precise (rob1 d) = (precise (rob1 c) \<noteq> odd (presses ButtonA (held (pad1 c)) ls))"
  using assms
proof (induction rule: irun1.induct)
  case (nil c)
  then show ?case by simp
next
  case (cons c l d ls e)
  from cons.hyps(1) show ?case
  proof cases
    case (poll p s')
    with cons.IH show ?thesis by (auto simp: run_handlers1_precise [OF poll(4)] filter_A_pad_edges)
  next
    case cycle
    with cons.IH show ?thesis by (simp add: drive_iter1_def)
  next
    case (move k a)
    with cons.IH show ?thesis by simp
  qed
qed

theorem irun1_precise_parity_witness:
  "\<exists>d. irun1 isess_init1 [Poll \<lparr>axis1 = 0, axis3 = 0, held = (\<lambda>b. b = ButtonA)\<rparr>,
                            Poll \<lparr>axis1 = 0, axis3 = 0, held = (\<lambda>b. b = ButtonA)\<rparr>,
                            Poll \<lparr>axis1 = 0, axis3 = 0, held = (\<lambda>b. False)\<rparr>] d
       \<and> precise (rob1 d)"
proof -
  define pA where "pA = \<lparr>axis1 = 0, axis3 = 0, held = (\<lambda>b. b = ButtonA)\<rparr>"
  define p0 where "p0 = \<lparr>axis1 = 0, axis3 = 0, held = (\<lambda>b::button. False)\<rparr>"
  define s1 where "s1 = toggle_precise init1"
  have "istep1 isess_init1 (Poll pA) \<lparr>pad1 = pA, rob1 = s1\<rparr>"
    by (rule istep1.poll) (simp_all add: pA_def s1_def pad_ok_def pad_edges_def all_buttons_def isess_init1_def)
  moreover have "istep1 \<lparr>pad1 = pA, rob1 = s1\<rparr> (Poll pA) \<lparr>pad1 = pA, rob1 = s1\<rparr>"
    by (rule istep1.poll) (simp_all add: pA_def pad_ok_def pad_edges_def all_buttons_def)
  moreover have "istep1 \<lparr>pad1 = pA, rob1 = s1\<rparr> (Poll p0) \<lparr>pad1 = p0, rob1 = s1\<rparr>"
    by (rule istep1.poll) (simp_all add: pA_def p0_def pad_ok_def pad_edges_def all_buttons_def)
  ultimately have run: "irun1 isess_init1 [Poll pA, Poll pA, Poll p0] \<lparr>pad1 = p0, rob1 = s1\<rparr>"
    by (blast intro: irun1.cons irun1.nil)
  have "precise (rob1 \<lparr>pad1 = p0, rob1 = s1\<rparr>)"
    using irun1_precise_parity [OF run]
    by (simp add: pA_def p0_def isess_init1_def init1_def setup1_def boot1_def)
  with run show ?thesis unfolding pA_def p0_def by blast
qed

text \<open>
  C34. Overlapping jog presses: if button L1 is released while L2 (the other button of
  the arm base) stays held, the base is left spinning at 0 percent, although L2 asks for
  reverse: the release handler does not look at the pair's other button, so the held
  button's command is lost until it is pressed again.
\<close>

theorem poll_release_drops_pair:
  assumes "istep1 c (Poll p) d"
    and "held (pad1 c) ButtonL1" and "\<not> held p ButtonL1"
    and "held (pad1 c) ButtonL2" and "held p ButtonL2"
  shows "m_mode (motors (hw1 (rob1 d)) ArmBaseMotor) = Spinning FORWARD 0 DefaultVelocityUnits"
  using assms(1)
proof cases
  case (poll s')
  let ?old = "held (pad1 c)" and ?new = "held p"
  let ?f = "\<lambda>b. if ?old b = ?new b then [] else [(b, if ?new b then Pressed else Released)]"
  define pre where "pre = concat (map ?f [ButtonA, ButtonB, ButtonX, ButtonY])"
  define post where "post = concat (map ?f [ButtonR1, ButtonR2, ButtonUp, ButtonDown, ButtonLeft, ButtonRight])"
  have split: "pad_edges ?old ?new = pre @ [(ButtonL1, Released)] @ post"
    using assms(2-5) by (simp add: pad_edges_def all_buttons_def pre_def post_def)
  obtain s1 where s1: "run_handlers1 pre (rob1 c) = Inr s1"
    using run_handlers1_total by blast
  define s2 where "s2 = control_motor1 0 ArmBaseMotor 60 s1"
  have "run_handlers1 post s2 = Inr s'"
    using poll(3) by (simp only: split run_handlers1_append s1) (simp add: s2_def)
  moreover have "list_all (\<lambda>(b, e). ArmBaseMotor \<notin> set (edge_motors1 b e)) post"
    by (simp add: post_def edge_motors1_def jog_table1_def)
  ultimately have "m_mode (motors (hw1 s') ArmBaseMotor) = m_mode (motors (hw1 s2) ArmBaseMotor)"
    by (rule run_handlers1_mode_frame)
  with poll(1) show ?thesis by (simp add: s2_def control_motor1_def)
qed

theorem poll_release_drops_pair_witness:
  "\<exists>d. irun1 isess_init1 [Poll \<lparr>axis1 = 0, axis3 = 0, held = (\<lambda>b. b = ButtonL1)\<rparr>,
                            Poll \<lparr>axis1 = 0, axis3 = 0, held = (\<lambda>b. b = ButtonL1 \<or> b = ButtonL2)\<rparr>,
                            Poll \<lparr>axis1 = 0, axis3 = 0, held = (\<lambda>b. b = ButtonL2)\<rparr>] d
       \<and> held (pad1 d) ButtonL2
       \<and> m_mode (motors (hw1 (rob1 d)) ArmBaseMotor) = Spinning FORWARD 0 DefaultVelocityUnits"
proof -
  define p1 where "p1 = \<lparr>axis1 = 0, axis3 = 0, held = (\<lambda>b. b = ButtonL1)\<rparr>"
  define p12 where "p12 = \<lparr>axis1 = 0, axis3 = 0, held = (\<lambda>b. b = ButtonL1 \<or> b = ButtonL2)\<rparr>"
  define p2 where "p2 = \<lparr>axis1 = 0, axis3 = 0, held = (\<lambda>b. b = ButtonL2)\<rparr>"
  define s1 where "s1 = control_motor1 1 ArmBaseMotor 60 init1"
  define s2 where "s2 = control_motor1 (-1) ArmBaseMotor 60 s1"
  define s3 where "s3 = control_motor1 0 ArmBaseMotor 60 s2"
  have "istep1 isess_init1 (Poll p1) \<lparr>pad1 = p1, rob1 = s1\<rparr>"
    by (rule istep1.poll) (simp_all add: p1_def s1_def pad_ok_def pad_edges_def all_buttons_def isess_init1_def)
  moreover have "istep1 \<lparr>pad1 = p1, rob1 = s1\<rparr> (Poll p12) \<lparr>pad1 = p12, rob1 = s2\<rparr>"
    by (rule istep1.poll) (simp_all add: p1_def p12_def s2_def pad_ok_def pad_edges_def all_buttons_def)
  moreover have last: "istep1 \<lparr>pad1 = p12, rob1 = s2\<rparr> (Poll p2) \<lparr>pad1 = p2, rob1 = s3\<rparr>"
    by (rule istep1.poll) (simp_all add: p12_def p2_def s3_def pad_ok_def pad_edges_def all_buttons_def)
  ultimately have run: "irun1 isess_init1 [Poll p1, Poll p12, Poll p2] \<lparr>pad1 = p2, rob1 = s3\<rparr>"
    by (blast intro: irun1.cons irun1.nil)
  have "m_mode (motors (hw1 s3) ArmBaseMotor) = Spinning FORWARD 0 DefaultVelocityUnits"
    using poll_release_drops_pair [OF last] by (simp add: p12_def p2_def)
  moreover have "held (pad1 \<lparr>pad1 = p2, rob1 = s3\<rparr>) ButtonL2" by (simp add: p2_def)
  ultimately show ?thesis using run unfolding p1_def p12_def p2_def by auto
qed

end
