(* ===== verification/Robot2.thy ===== *)
theory Robot2
  imports Mixer
begin

text \<open>
  Robot 2, \<open>src/tinyEricForever/src/main.py\<close>: a tank drive, a claw, a rack and pinion,
  a tray and a tray gate whose open/closed status is shown on the controller screen. Its
  module globals are the motors, the flag \<open>speed\<close> and the flag \<open>open\<close> (here
  \<open>gate_open\<close>: \<open>open\<close> is an Isabelle keyword). The drive thread's loop body
  assigns a local \<open>speed\<close>, so Python makes \<open>speed\<close> local to the whole of
  \<open>drive_task\<close>: the model of the loop body takes that local's value before the
  iteration (\<open>None\<close> while it is unbound) and returns it after.
\<close>

datatype motor2 = LeftDrive2 | RightDrive2 | ClawMotor2 | RackMotor | TrayMotor2 | GateMotor

record robot2 =
  hw2 :: "motor2 hw"
  speed :: bool
  gate_open :: bool

text \<open>Lines 11-18: the motors as constructed.\<close>

primrec motor_decl2 :: "motor2 \<Rightarrow> motor" where
  "motor_decl2 LeftDrive2 = new_motor 1 RATIO_18_1 False"
| "motor_decl2 RightDrive2 = new_motor 3 RATIO_18_1 True"
| "motor_decl2 ClawMotor2 = new_motor 12 RATIO_18_1 False"
| "motor_decl2 RackMotor = new_motor 5 RATIO_18_1 False"
| "motor_decl2 TrayMotor2 = new_motor 2 RATIO_18_1 False"
| "motor_decl2 GateMotor = new_motor 4 RATIO_18_1 False"

text \<open>Lines 1-23: the module state before any handler or thread runs.\<close>

definition boot2 :: robot2 where
  "boot2 = \<lparr>hw2 = \<lparr>motors = motor_decl2, scr = blank_screen, effects = []\<rparr>,
            speed = False, gate_open = False\<rparr>"

text \<open>Lines 26-28, \<open>toggle_speed\<close>.\<close>

definition toggle_speed :: "robot2 \<Rightarrow> robot2" where
  "toggle_speed s = s\<lparr>speed := (if speed s then False else True)\<rparr>"

text \<open>Lines 31-32, \<open>recalibrate\<close>.\<close>

definition recalibrate2 :: "robot2 \<Rightarrow> robot2" where
  "recalibrate2 s = s\<lparr>hw2 := issue GateMotor ResetPosition (hw2 s)\<rparr>"

text \<open>Lines 35-36, \<open>control_motor\<close>: \<open>motor.spin(FORWARD, direction * percent, PERCENT)\<close>.\<close>

definition control_motor2 :: "int \<Rightarrow> motor2 \<Rightarrow> int \<Rightarrow> robot2 \<Rightarrow> robot2" where
  "control_motor2 direction k percent s =
     s\<lparr>hw2 := issue k (Spin FORWARD (of_int (direction * percent)) PERCENT) (hw2 s)\<rparr>"

text \<open>
  Lines 52-66, the gate status monitor inside the loop: \<open>angle\<close> is the gate angle
  modulo 360 (a float); the screen is rewritten only when the status changes.
\<close>

definition gate_monitor2 :: "robot2 \<Rightarrow> robot2" where
  "gate_monitor2 s =
     (let angle = py_fmod (position GateMotor (hw2 s)) 360
      in if (angle < 30 \<or> angle > 330) \<and> gate_open s = True then
           s\<lparr>hw2 := screen_do (Print (Txt ''Closed'')) (screen_do (SetCursor 1 0) (screen_do ClearScreen (hw2 s))),
             gate_open := False\<rparr>
         else if (angle \<ge> 30 \<and> angle \<le> 330) \<and> gate_open s = False then
           s\<lparr>hw2 := screen_do (Print (Txt ''Open'')) (screen_do (SetCursor 1 0) (screen_do ClearScreen (hw2 s))),
             gate_open := True\<rparr>
         else s)"

text \<open>
  Lines 70-111, the decision part of one drive iteration, given the iteration's
  \<open>speed\<close>, \<open>steer\<close> and \<open>turningSpeed\<close>.
\<close>

definition drive_mix2 :: "axis \<Rightarrow> axis \<Rightarrow> real \<Rightarrow> real \<Rightarrow> int \<Rightarrow> drive_out" where
  "drive_mix2 y x spd steer turningSpeed =
     (if y > 5 then
        (if x > 5 then DriveSpin FORWARD (spd + steer) FORWARD (spd - steer)
         else if x < -5 then DriveSpin FORWARD (spd - steer) FORWARD (spd + steer)
         else DriveSpin FORWARD spd FORWARD spd)
      else if y < -5 then
        (if x > 5 then DriveSpin REVERSE (spd - steer) REVERSE (spd + steer)
         else if x < -5 then DriveSpin REVERSE (spd + steer) REVERSE (spd - steer)
         else DriveSpin REVERSE spd REVERSE spd)
      else if x > 15 then DriveSpin FORWARD (spd * of_int turningSpeed) REVERSE (spd * of_int turningSpeed)
      else if x < -15 then DriveSpin REVERSE (spd * of_int turningSpeed) FORWARD (spd * of_int turningSpeed)
      else DriveStop)"

text \<open>
  Lines 42-115, one iteration of \<open>drive_task\<close>'s loop. Line 49 evaluates
  \<open>(0.55 if speed else 1)\<close> on the local \<open>speed\<close>, which is read before line 49
  assigns it: unbound on the first iteration (\<open>UnboundLocalError\<close>), the previous
  iteration's float afterwards. Line 50 reads the freshly assigned local.
\<close>

definition drive_iter2 :: "real option \<Rightarrow> axis \<Rightarrow> axis \<Rightarrow> robot2 \<Rightarrow> py_error + (real option \<times> robot2)" where
  "drive_iter2 speed_local y x s =
     (let steer = of_int \<bar>x\<bar> / 5
      in case speed_local of
           None \<Rightarrow> Inl (UnboundLocalError ''speed'')
         | Some prev \<Rightarrow>
             (let spd = (10 + \<bar>of_int y / 2.5\<bar>) / (if py_truthy prev then 0.55 else 1);
                  turningSpeed = (if py_truthy spd then 4 else 3);
                  s1 = gate_monitor2 s;
                  s2 = s1\<lparr>hw2 := apply_drive LeftDrive2 RightDrive2 (drive_mix2 y x spd steer turningSpeed) (hw2 s1)\<rparr>
              in Inr (Some spd, s2\<lparr>hw2 := sleep_ms 10 (hw2 s2)\<rparr>)))"

text \<open>
  The loop over a finite sequence of samples, threading the local \<open>speed\<close>; an
  exception ends the thread.
\<close>

fun drive_loop2 :: "(axis \<times> axis) list \<Rightarrow> real option \<Rightarrow> robot2 \<Rightarrow> py_error + robot2" where
  "drive_loop2 [] sl s = Inr s"
| "drive_loop2 ((y, x) # ins) sl s =
     (case drive_iter2 sl y x s of
        Inl e \<Rightarrow> Inl e
      | Inr (sl', s') \<Rightarrow> drive_loop2 ins sl' s')"

text \<open>Line 119 starts \<open>drive_task\<close> on a fresh frame: the local \<open>speed\<close> is unbound.\<close>

definition drive_task2 :: "(axis \<times> axis) list \<Rightarrow> robot2 \<Rightarrow> py_error + robot2" where
  "drive_task2 ins s = drive_loop2 ins None s"

text \<open>Line 122: only the claw is given an idle behaviour.\<close>

definition setup2 :: "robot2 \<Rightarrow> robot2" where
  "setup2 s = s\<lparr>hw2 := issue ClawMotor2 (SetStopping HOLD) (hw2 s)\<rparr>"

definition init2 :: robot2 where
  "init2 = setup2 boot2"

text \<open>Lines 124-150: the button bindings.\<close>

fun handler2 :: "button \<Rightarrow> edge \<Rightarrow> robot2 \<Rightarrow> robot2" where
  "handler2 ButtonA Pressed s = toggle_speed s"
| "handler2 ButtonB Pressed s = recalibrate2 s"
| "handler2 ButtonL1 Pressed s = control_motor2 1 RackMotor 100 s"
| "handler2 ButtonL1 Released s = control_motor2 0 RackMotor 100 s"
| "handler2 ButtonL2 Pressed s = control_motor2 (-1) RackMotor 100 s"
| "handler2 ButtonL2 Released s = control_motor2 0 RackMotor 100 s"
| "handler2 ButtonR1 Pressed s = control_motor2 1 TrayMotor2 100 s"
| "handler2 ButtonR1 Released s = control_motor2 0 TrayMotor2 100 s"
| "handler2 ButtonR2 Pressed s = control_motor2 (-1) TrayMotor2 100 s"
| "handler2 ButtonR2 Released s = control_motor2 0 TrayMotor2 100 s"
| "handler2 ButtonUp Pressed s = control_motor2 1 ClawMotor2 100 s"
| "handler2 ButtonUp Released s = control_motor2 0 ClawMotor2 100 s"
| "handler2 ButtonDown Pressed s = control_motor2 (-1) ClawMotor2 100 s"
| "handler2 ButtonDown Released s = control_motor2 0 ClawMotor2 100 s"
| "handler2 ButtonLeft Pressed s = control_motor2 1 GateMotor 25 s"
| "handler2 ButtonLeft Released s = control_motor2 0 GateMotor 25 s"
| "handler2 ButtonRight Pressed s = control_motor2 (-1) GateMotor 25 s"
| "handler2 ButtonRight Released s = control_motor2 0 GateMotor 25 s"
| "handler2 _ _ s = s"

text \<open>The per-cycle numbers of robot 2 as a mixer profile (lines 48-50).\<close>

definition profile2 :: "real \<Rightarrow> axis \<Rightarrow> axis \<Rightarrow> mixer_profile" where
  "profile2 spd x turningSpeed =
     \<lparr>mp_speed = spd, mp_steer = of_int \<bar>x\<bar> / 5, mp_outer = of_int \<bar>x\<bar> / 5,
      mp_rot = spd * of_int turningSpeed\<rparr>"

subsection \<open>Helper lemmas\<close>

lemma gate_monitor2_cases:
  "gate_monitor2 s =
     (let angle = py_fmod (position GateMotor (hw2 s)) 360; now_open = (30 \<le> angle \<and> angle \<le> 330)
      in if now_open = gate_open s then s
         else s\<lparr>hw2 := screen_do (Print (Txt (if now_open then ''Open'' else ''Closed'')))
                        (screen_do (SetCursor 1 0) (screen_do ClearScreen (hw2 s))),
                gate_open := now_open\<rparr>)"
  by (auto simp: gate_monitor2_def Let_def)

lemma speed_local_lower:
  "(10::real) \<le> (10 + \<bar>of_int y / 2.5\<bar>) / (if prev \<noteq> 0 then 0.55 else 1)"
  by (simp add: le_divide_eq)

lemma drive_mix2_profile:
  "drive_mix2 y x spd (of_int \<bar>x\<bar> / 5) ts = mix_profile (profile2 spd x ts) (manoeuvre y x)"
  by (simp add: drive_mix2_def profile2_def manoeuvre_def arc_def)

lemma drive_iter2_Some:
  "drive_iter2 (Some prev) y x s =
     (let spd = (10 + \<bar>of_int y / 2.5\<bar>) / (if prev \<noteq> 0 then 0.55 else 1);
          s1 = gate_monitor2 s
      in Inr (Some spd, s1\<lparr>hw2 := sleep_ms 10 (apply_drive LeftDrive2 RightDrive2
                                 (drive_mix2 y x spd (of_int \<bar>x\<bar> / 5) (if spd \<noteq> 0 then 4 else 3)) (hw2 s1))\<rparr>))"
  by (simp add: drive_iter2_def py_truthy_def Let_def)

lemma gate_monitor2_speed [simp]: "speed (gate_monitor2 s) = speed s"
  by (simp add: gate_monitor2_def Let_def)

lemma gate_monitor2_speed_update: "gate_monitor2 (s\<lparr>speed := b\<rparr>) = (gate_monitor2 s)\<lparr>speed := b\<rparr>"
  by (simp add: gate_monitor2_def Let_def position_def)

text \<open>
  Were an iteration to run (after a first one, \<open>speed\<close> truthy) at full deflection
  \<open>y = x = 100\<close>, the outer track would get \<open>1220/11\<close>, more than 100 percent.
\<close>

lemma drive_mix2_full_deflection:
  "(10 + \<bar>of_int (100::int) / 2.5\<bar>) / 0.55 = (1000 / 11 :: real)
   \<and> drive_mix2 100 100 (1000 / 11) (of_int \<bar>100::int\<bar> / 5) 4 = DriveSpin FORWARD (1220 / 11) FORWARD (780 / 11)
   \<and> (100::real) < 1220 / 11"
  by (simp add: drive_mix2_def)

subsection \<open>The drive loop\<close>

text \<open>
  C2. Robot 2's drive thread never completes an iteration: on its first pass line 49
  reads the local \<open>speed\<close> before assigning it, so \<open>drive_task\<close> raises
  \<open>UnboundLocalError\<close> whatever the joystick samples and the state, before it drives a
  motor or updates the gate display. (CPython names this exception
  \<open>UnboundLocalError\<close>; the MicroPython of VEX V5 reports the same read as a
  \<open>NameError\<close>; the behaviour, a raise at line 49, is the same.)
\<close>

theorem drive_task2_unbound_local:
  "drive_task2 ((y, x) # ins) s = Inl (UnboundLocalError ''speed'')"
  by (simp add: drive_task2_def drive_iter2_def Let_def)

subsection \<open>The gate status monitor\<close>

text \<open>
  C21. After one pass of the gate monitor the status flag says whether the gate angle
  modulo 360 is in the open band \<open>30..330\<close>; the monitor moves no motor and leaves the
  speed flag alone.
\<close>

theorem gate_monitor2_tracks_band:
  "gate_open (gate_monitor2 s) \<longleftrightarrow>
     (30 \<le> py_fmod (position GateMotor (hw2 s)) 360 \<and> py_fmod (position GateMotor (hw2 s)) 360 \<le> 330)
   \<and> motors (hw2 (gate_monitor2 s)) = motors (hw2 s) \<and> speed (gate_monitor2 s) = speed s"
  by (simp add: gate_monitor2_cases Let_def)

text \<open>
  C22. The monitor writes to the screen only on a transition, and then exactly clears it,
  moves the cursor to row 1 and prints the new status: no transition, no write.
\<close>

theorem gate_monitor2_writes_on_transition:
  "effects (hw2 (gate_monitor2 s)) = effects (hw2 s) @
     (if gate_open (gate_monitor2 s) = gate_open s then []
      else [ScreenEff ClearScreen, ScreenEff (SetCursor 1 0),
            ScreenEff (Print (Txt (if gate_open (gate_monitor2 s) then ''Open'' else ''Closed'')))])"
  by (simp add: gate_monitor2_cases Let_def)

text \<open>
  C29. Recalibrating the gate zeroes its angle, so the next monitor pass reports the gate
  closed.
\<close>

theorem recalibrate2_closes:
  "position GateMotor (hw2 (recalibrate2 s)) = 0 \<and> \<not> gate_open (gate_monitor2 (recalibrate2 s))"
  by (simp add: recalibrate2_def gate_monitor2_cases position_def Let_def py_fmod_small)

subsection \<open>The speed mode and the drive loop after its first pass\<close>

text \<open>
  C23. The global flag \<open>speed\<close> that button A toggles has no influence on the drive
  loop: an iteration from a state that differs only in the flag computes the same thing.
\<close>

theorem drive_iter2_ignores_speed_flag:
  "drive_iter2 sl y x (s\<lparr>speed := b\<rparr>) = map_sum id (\<lambda>(l, t). (l, t\<lparr>speed := b\<rparr>)) (drive_iter2 sl y x s)"
  by (cases sl) (simp_all add: drive_iter2_def Let_def gate_monitor2_speed_update)

text \<open>
  C24. Were an iteration to run with a positive speed (turning factor 4, as every
  iteration after a first one would have), robot 2's decision tree is the generic mixer
  with outer-track boost \<open>steer\<close> and rotation power \<open>4 * speed\<close>, and its yaw has
  the sign of the steering intent.
\<close>

theorem drive_mix2_steering_refines:
  assumes "0 < spd"
  shows "drive_mix2 y x spd (of_int \<bar>x\<bar> / 5) 4 = mix_profile (profile2 spd x 4) (manoeuvre y x)
     \<and> sgn (yaw (drive_mix2 y x spd (of_int \<bar>x\<bar> / 5) 4)) = of_int (steer_intent y x)"
proof -
  have "profile_ok (profile2 spd x 4) (manoeuvre y x)"
    using assms by (auto simp: profile_ok_def profile2_def manoeuvre_def arc_def)
  moreover have "drive_mix2 y x spd (of_int \<bar>x\<bar> / 5) 4 = mix_profile (profile2 spd x 4) (manoeuvre y x)"
    by (rule drive_mix2_profile)
  ultimately show ?thesis
    by (simp only: yaw_mix_profile_sign steer_intent_turn_sign)
qed

theorem drive_mix2_steering_refines_witness:
  "drive_mix2 50 20 30 4 4 = mix_profile (profile2 30 20 4) (manoeuvre 50 20)
   \<and> sgn (yaw (drive_mix2 50 20 30 4 4)) = of_int (steer_intent 50 20)"
proof -
  have h: "of_int \<bar>20::int\<bar> / 5 = (4::real)" by simp
  have "(0::real) < 30" by simp
  from drive_mix2_steering_refines [OF this, of 50 20, unfolded h] show ?thesis .
qed

text \<open>
  C25. Whenever an iteration completes, it leaves the local \<open>speed\<close> bound to a value of
  at least 10, so every later iteration would divide by 0.55 and use turning factor 4
  whatever the speed mode.
\<close>

theorem drive_iter2_local_speed:
  assumes "drive_iter2 sl y x s = Inr (sl', s')"
  shows "\<exists>v. sl' = Some v \<and> 10 \<le> v"
proof (cases sl)
  case None
  with assms show ?thesis by (simp add: drive_iter2_def)
next
  case (Some prev)
  with assms speed_local_lower [of y prev] show ?thesis
    by (auto simp: drive_iter2_Some Let_def)
qed

theorem drive_iter2_local_speed_witness:
  "\<exists>sl' s'. drive_iter2 (Some 1) 0 0 boot2 = Inr (sl', s') \<and> (\<exists>v. sl' = Some v \<and> 10 \<le> v)"
proof -
  have "\<exists>sl' s'. drive_iter2 (Some 1) 0 0 boot2 = Inr (sl', s')"
    by (simp add: drive_iter2_def Let_def)
  then obtain sl' s' where eq: "drive_iter2 (Some 1) 0 0 boot2 = Inr (sl', s')" by blast
  with drive_iter2_local_speed [OF eq] show ?thesis by blast
qed

subsection \<open>Handlers and setup\<close>

text \<open>
  C26. \<open>toggle_speed\<close> is an involution: it flips the flag and does nothing else, so two
  presses of button A restore the whole state.
\<close>

theorem toggle_speed_effect:
  "toggle_speed (toggle_speed s) = s
   \<and> speed (toggle_speed s) = (\<not> speed s) \<and> hw2 (toggle_speed s) = hw2 s \<and> gate_open (toggle_speed s) = gate_open s"
  by (simp add: toggle_speed_def)

text \<open>C28. No button handler of robot 2 writes a drive motor or the gate status.\<close>

theorem handler2_no_drive:
  "motors (hw2 (handler2 b e s)) LeftDrive2 = motors (hw2 s) LeftDrive2
   \<and> motors (hw2 (handler2 b e s)) RightDrive2 = motors (hw2 s) RightDrive2
   \<and> gate_open (handler2 b e s) = gate_open s"
  by (cases b; cases e) (simp_all add: toggle_speed_def recalibrate2_def control_motor2_def)


end
