(* ===== verification/Session2.thy ===== *)
theory Session2
  imports Robot2
begin

text \<open>
  The running session of robot 2. As in \<open>Session1\<close>, a step is a whole loop iteration,
  a whole handler, or the world moving a motor. The drive thread carries its Python frame:
  it is running with the current value of its local \<open>speed\<close> (\<open>None\<close> while unbound)
  or dead after an exception, which ends a VEX thread while the handlers keep running.
  The session starts in \<open>init2\<close> with the thread running on a fresh frame.
\<close>

datatype thread2 = Running "real option" | Dead py_error

record session2 =
  rob :: robot2
  drive_thr :: thread2

datatype label2 = DriveL2 axis axis | EventL2 button edge | MotionL2 motor2 degrees

inductive step2 :: "session2 \<Rightarrow> label2 \<Rightarrow> session2 \<Rightarrow> bool" where
  drive_ok: "drive_thr s = Running sl \<Longrightarrow> \<bar>y\<bar> \<le> 100 \<Longrightarrow> \<bar>x\<bar> \<le> 100 \<Longrightarrow>
     drive_iter2 sl y x (rob s) = Inr (sl', r') \<Longrightarrow>
     step2 s (DriveL2 y x) \<lparr>rob = r', drive_thr = Running sl'\<rparr>"
| drive_raise: "drive_thr s = Running sl \<Longrightarrow> \<bar>y\<bar> \<le> 100 \<Longrightarrow> \<bar>x\<bar> \<le> 100 \<Longrightarrow>
     drive_iter2 sl y x (rob s) = Inl e \<Longrightarrow>
     step2 s (DriveL2 y x) (s\<lparr>drive_thr := Dead e\<rparr>)"
| event: "step2 s (EventL2 b e) (s\<lparr>rob := handler2 b e (rob s)\<rparr>)"
| motion: "step2 s (MotionL2 k a) (s\<lparr>rob := (rob s)\<lparr>hw2 := env_move k a (hw2 (rob s))\<rparr>\<rparr>)"

definition session2_init :: session2 where
  "session2_init = \<lparr>rob = init2, drive_thr = Running None\<rparr>"

inductive reach2 :: "session2 \<Rightarrow> bool" where
  init: "reach2 session2_init"
| step: "reach2 s \<Longrightarrow> step2 s l t \<Longrightarrow> reach2 t"

text \<open>An effect a handler may leave: a command to a motor other than the drive motors.\<close>

definition quiet2 :: "motor2 effect \<Rightarrow> bool" where
  "quiet2 e = (case e of MotorEff k c \<Rightarrow> k \<noteq> LeftDrive2 \<and> k \<noteq> RightDrive2 | _ \<Rightarrow> False)"

text \<open>
  What holds all session long: the drive thread never got past line 49, and nothing ever
  set the drive motors' idle behaviour (line 122 configures only the claw).
\<close>

definition never_drove2 :: "session2 \<Rightarrow> bool" where
  "never_drove2 s \<longleftrightarrow>
     (drive_thr s = Running None \<or> drive_thr s = Dead (UnboundLocalError ''speed''))
     \<and> list_all quiet2 (effects (hw2 (rob s))) \<and> \<not> gate_open (rob s)
     \<and> m_mode (motors (hw2 (rob s)) LeftDrive2) = Idle \<and> m_mode (motors (hw2 (rob s)) RightDrive2) = Idle
     \<and> m_stopping (motors (hw2 (rob s)) LeftDrive2) = COAST
     \<and> m_stopping (motors (hw2 (rob s)) RightDrive2) = COAST"

inductive_cases step2_DriveE: "step2 s (DriveL2 y x) t"

subsection \<open>Helper lemmas\<close>

lemma handler2_frame:
  "\<exists>new. effects (hw2 (handler2 b e s)) = effects (hw2 s) @ new \<and> list_all quiet2 new
     \<and> gate_open (handler2 b e s) = gate_open s
     \<and> motors (hw2 (handler2 b e s)) LeftDrive2 = motors (hw2 s) LeftDrive2
     \<and> motors (hw2 (handler2 b e s)) RightDrive2 = motors (hw2 s) RightDrive2"
  by (cases b; cases e) (simp_all add: toggle_speed_def recalibrate2_def control_motor2_def quiet2_def)

lemma drive_iter2_None: "drive_iter2 None y x r = Inl (UnboundLocalError ''speed'')"
  by (simp add: drive_iter2_def)

lemma never_drove2_init: "never_drove2 session2_init"
  by (simp add: never_drove2_def session2_init_def init2_def setup2_def boot2_def quiet2_def new_motor_def)

lemma step2_never_drove:
  assumes "step2 s l t" and "never_drove2 s"
  shows "never_drove2 t"
  using assms
proof cases
  case (drive_ok sl y x sl' r')
  with assms(2) show ?thesis by (auto simp: never_drove2_def drive_iter2_None)
next
  case (drive_raise sl y x e)
  with assms(2) show ?thesis by (auto simp: never_drove2_def drive_iter2_None)
next
  case (event b e)
  with assms(2) show ?thesis using handler2_frame [of b e "rob s"] by (auto simp: never_drove2_def)
next
  case (motion k a)
  with assms(2) show ?thesis by (auto simp: never_drove2_def env_move_def)
qed

lemma reach2_never_drove: "reach2 s \<Longrightarrow> never_drove2 s"
proof (induction rule: reach2.induct)
  case init
  show ?case by (rule never_drove2_init)
next
  case (step s l t)
  then show ?case by (blast intro: step2_never_drove)
qed

subsection \<open>Session properties\<close>

text \<open>
  C35. In every reachable state of robot 2's session the drive thread is either still on
  its fresh frame or dead with \<open>UnboundLocalError\<close>; the effect log holds only
  handler commands to non-drive motors (no drive command, no screen write, no sleep); the
  gate status was never set; the drive motors were never commanded. The drive and the gate
  display of spec sections 4.1 and 4.6 never happen on robot 2.
\<close>

theorem reach2_drive_never_runs:
  assumes "reach2 s"
  shows "drive_thr s \<in> {Running None, Dead (UnboundLocalError ''speed'')}
       \<and> list_all quiet2 (effects (hw2 (rob s))) \<and> \<not> gate_open (rob s)
       \<and> m_mode (motors (hw2 (rob s)) LeftDrive2) = Idle \<and> m_mode (motors (hw2 (rob s)) RightDrive2) = Idle"
  using reach2_never_drove [OF assms] by (auto simp: never_drove2_def)

theorem reach2_drive_never_runs_witness:
  "drive_thr session2_init \<in> {Running None, Dead (UnboundLocalError ''speed'')}
   \<and> list_all quiet2 (effects (hw2 (rob session2_init))) \<and> \<not> gate_open (rob session2_init)
   \<and> m_mode (motors (hw2 (rob session2_init)) LeftDrive2) = Idle
   \<and> m_mode (motors (hw2 (rob session2_init)) RightDrive2) = Idle"
  by (rule reach2_drive_never_runs [OF reach2.init])

text \<open>
  C27. Robot 2's drive motors coast: in every reachable state their idle behaviour is
  still the facade's default \<open>COAST\<close> (setup configures only the claw, and no handler or
  step sets it), so a deadband drive iteration, were one to run with \<open>speed\<close> bound,
  would stop both tracks with \<open>COAST\<close>, not the brake or hold the spec asks of a stop.
\<close>

theorem reach2_stop_coasts:
  assumes "reach2 s" and "\<bar>y\<bar> \<le> 5" and "\<bar>x\<bar> \<le> 15"
  shows "m_stopping (motors (hw2 (rob s)) LeftDrive2) = COAST \<and> m_stopping (motors (hw2 (rob s)) RightDrive2) = COAST
       \<and> (\<exists>sl' t. drive_iter2 (Some prev) y x (rob s) = Inr (sl', t)
             \<and> m_mode (motors (hw2 t) LeftDrive2) = Stopped COAST
             \<and> m_mode (motors (hw2 t) RightDrive2) = Stopped COAST)"
proof -
  from reach2_never_drove [OF assms(1)]
  have c: "m_stopping (motors (hw2 (rob s)) LeftDrive2) = COAST"
          "m_stopping (motors (hw2 (rob s)) RightDrive2) = COAST"
    by (simp_all add: never_drove2_def)
  have stop: "drive_mix2 y x spd st ts = DriveStop" for spd st ts
    using assms(2,3) by (auto simp: drive_mix2_def)
  show ?thesis using c by (auto simp: drive_iter2_Some Let_def stop gate_monitor2_cases)
qed

theorem reach2_stop_coasts_witness:
  "m_stopping (motors (hw2 (rob session2_init)) LeftDrive2) = COAST
   \<and> m_stopping (motors (hw2 (rob session2_init)) RightDrive2) = COAST
   \<and> (\<exists>sl' t. drive_iter2 (Some 10) 0 0 (rob session2_init) = Inr (sl', t)
         \<and> m_mode (motors (hw2 t) LeftDrive2) = Stopped COAST
         \<and> m_mode (motors (hw2 t) RightDrive2) = Stopped COAST)"
  using reach2_stop_coasts [OF reach2.init, of 0 0 10] by simp

text \<open>
  C37. Liveness of the failure: whenever the drive thread is alive in a reachable state,
  its next iteration can be scheduled, and every such step kills the thread with
  \<open>UnboundLocalError\<close> and changes nothing else.
\<close>

theorem reach2_thread_dies:
  assumes "reach2 s" and "drive_thr s = Running sl" and "\<bar>y\<bar> \<le> 100" and "\<bar>x\<bar> \<le> 100"
  shows "(\<exists>t. step2 s (DriveL2 y x) t)
       \<and> (\<forall>t. step2 s (DriveL2 y x) t \<longrightarrow> drive_thr t = Dead (UnboundLocalError ''speed'') \<and> rob t = rob s)"
proof -
  from reach2_never_drove [OF assms(1)] assms(2) have sl: "sl = None"
    by (simp add: never_drove2_def)
  have "step2 s (DriveL2 y x) (s\<lparr>drive_thr := Dead (UnboundLocalError ''speed'')\<rparr>)"
    using assms(2-4) sl by (intro step2.drive_raise [where sl = None]) (simp_all add: drive_iter2_None)
  moreover have "drive_thr t = Dead (UnboundLocalError ''speed'') \<and> rob t = rob s"
    if "step2 s (DriveL2 y x) t" for t
    using that assms(2) sl by (auto elim: step2_DriveE simp: drive_iter2_None)
  ultimately show ?thesis by blast
qed

theorem reach2_thread_dies_witness:
  "\<exists>t. step2 session2_init (DriveL2 0 0) t
       \<and> drive_thr t = Dead (UnboundLocalError ''speed'') \<and> rob t = rob session2_init"
  using reach2_thread_dies [OF reach2.init, of None 0 0] by (auto simp: session2_init_def)

end
