(* ===== verification/Spec2Isabelle.thy ===== *)
theory Spec2Isabelle
  imports Intent1 Input1 Session2
begin

text \<open>
  \<^bold>\<open>A verification model of the two teleoperation scripts of
  taitberlette/robotics-skillsontario-2024.\<close>

  \<^emph>\<open>The program.\<close> Two VEX V5 Python scripts, one per robot:
  \<open>src/mediumEricForTheWin/src/main.py\<close> (robot 1: tank drive, a two-joint arm with
  two preset poses, claw, snow scoop) and \<open>src/tinyEricForever/src/main.py\<close> (robot 2:
  tank drive, claw, rack, tray, and a tray gate whose open/closed status is shown on the
  controller screen). Each script constructs its motors, keeps a few module globals
  (\<open>precise\<close>; \<open>speed\<close> and \<open>open\<close>), starts a thread running \<open>drive_task\<close>
  (an endless loop: read two joystick axes, mix them into left/right track commands,
  \<open>sleep(10)\<close>), configures idle behaviours, and binds button edges to handlers
  (mode toggle, recalibration, preset moves, jog commands). The thread and the handlers
  share the globals and the motors.

  \<^emph>\<open>Theories.\<close>
  \<^item> \<open>Prelude\<close>: Python primitives the scripts use: float \<open>%\<close> (\<open>py_fmod\<close>),
    tuple indexing with negative indices and \<open>IndexError\<close> (\<open>py_index\<close>), float
    truthiness (\<open>py_truthy\<close>), the Python errors (\<open>py_error\<close>). Floats are idealised as
    \<open>real\<close>; axis samples are \<open>int\<close>.
  \<^item> \<open>Vex\<close>: the \<open>vex\<close> library, which is not in the repository and is modelled from
    the spec (section 6): a motor record (construction parameters, idle behaviour,
    position reference, current mode), \<open>motor_exec\<close> for \<open>spin\<close>,
    \<open>spin_to_position\<close> (a blocking call returns at the target), \<open>stop\<close>,
    \<open>reset_position\<close>, \<open>set_stopping\<close>; the controller screen; the brain record
    \<open>'m hw\<close> holding all motors, the screen and an ordered log of every effect
    (\<open>issue\<close>, \<open>screen_do\<close>, \<open>sleep_ms\<close>); \<open>env_move\<close>, the physical world
    turning a motor.
  \<^item> \<open>Mixer\<close>: the interface the two drive loops share: the directional decision tree
    \<open>manoeuvre\<close> (forward/backward with arc right/left/straight, rotate right/left,
    stop, in the source's priority order), a \<open>mixer_profile\<close> of four per-cycle numbers,
    the generic mixer \<open>mix_profile\<close>, \<open>apply_drive\<close> (left then right command), and
    the abstract specification \<open>steer_intent\<close> with the yaw of a command.
  \<^item> \<open>Robot1\<close>: one definition per function of robot 1's script, in its order
    (\<open>print_position\<close>, \<open>toggle_precise\<close>, \<open>recalibrate1\<close>, \<open>control_motor1\<close>,
    \<open>move_arm_to\<close>, the loop body \<open>drive_iter1\<close> with its decision part
    \<open>drive_mix1\<close>), the module setup \<open>init1\<close> and the button dispatch \<open>handler1\<close>.
  \<^item> \<open>Robot2\<close>: the same for robot 2 (\<open>toggle_speed\<close>, \<open>recalibrate2\<close>,
    \<open>control_motor2\<close>, \<open>gate_monitor2\<close>, \<open>drive_mix2\<close>, \<open>drive_iter2\<close>,
    \<open>drive_task2\<close>, \<open>init2\<close>, \<open>handler2\<close>). Python's scoping is modelled: the loop
    body assigns \<open>speed\<close>, so \<open>speed\<close> is a local of \<open>drive_task\<close> throughout and
    the model threads its value (\<open>None\<close> while unbound) from one iteration to the next.
  \<^item> \<open>Session1\<close>: robot 1's running session as a labelled step relation \<open>step1\<close>
    (a whole drive iteration, a whole handler, or the world moving a motor: VEX Python
    threads are cooperative and yield only in \<open>sleep\<close>), the reachable states
    \<open>reach1\<close> from \<open>init1\<close>, and invariants by rule induction.
  \<^item> \<open>Session1\<close> also holds the shape of the effect log (\<open>drive_log_ok\<close>), runs of the
    session (\<open>run1\<close>, finite label sequences) and which labels may write a motor's mode
    (\<open>writes_mode1\<close>, derived from the bindings and \<open>jog_table1\<close>).
  \<^item> \<open>Session2\<close>: robot 2's running session (\<open>step2\<close>, \<open>reach2\<close>): the drive
    thread carries its Python frame (\<open>Running\<close> with the local \<open>speed\<close>) or is
    \<open>Dead\<close> after an exception, while the handlers keep running.
  \<^item> \<open>Intent1\<close>: an abstract specification of robot 1's session written from the
    spec's contracts, the operator-intent machine \<open>astep1\<close> (mode flag and, per motor,
    the kind of command it is under: free, a signed velocity, a position target, halted;
    events: a nondeterministic drive cycle bound by \<open>drive_contract\<close>, toggle, jog,
    preset, no-op), the abstraction \<open>abs1\<close> and the event map \<open>intent_of1\<close>, and
    the functional simulation of \<open>step1\<close> by \<open>astep1\<close>, proved over runs in
    \<open>session1_refines_intent\<close> (C20).
  \<^item> \<open>Input1\<close>: the input sampler (\<open>pad\<close>, \<open>pad_edges\<close> in \<open>Vex\<close>: a sample
    holds the two axes and the button levels, the dispatcher fires one edge per changed
    button) driving robot 1's session: a poll runs the bound callbacks of the edges
    (\<open>run_handlers1\<close>), a cycle runs \<open>drive_iter1\<close> on the sampled axes
    (\<open>controller.axis3/axis1.position()\<close>, lines 65-66). Every step of it is a run of
    \<open>step1\<close> (\<open>istep1_run1\<close>), so its states are reachable states of
    \<open>Session1\<close> (\<open>irun1_reach1\<close>).
  \<^item> This theory: properties that join the two robots (their shared decision tree) and
    the gate monitor with the world's motion.

  \<^emph>\<open>What is proved.\<close> Robot 1's mixer: the deadband stop (C1), the spec's straight
  cases forward and backward with the backward halving (C3), rotation (C5), refinement of
  the steering intent (C7), mirror symmetry (C8), power bounds in both modes (C9), and that
  a hard low-speed arc reverses the inner track (C10); both robots' mixers choose the same
  track directions on every input (C6). Robot 1's handlers: the toggle's flag, display and
  double-toggle idempotence (C12), the preset moves with their blocking order (C13), index
  errors and negative-index aliases (C14, C15), calibration (C16), jog bindings (C17), that
  handlers never touch the drive motors (C18) and the loop touches only them (C19). Robot
  1's session: the configuration is intact in every reachable state (C30), a stop brakes
  (C31), the screen is blank or holds exactly the last two-row debug snapshot (C11), the
  effect log is well formed (C36), a motor's mode changes only through a label that may
  write it (C38); the session refines the operator-intent machine (C20), and every motor is
  always under a kind of command its owner may issue, the arm joint only ever sent to a
  preset's joint angle (C4, the intent machine's invariant read on the code). Driven by the
  input sampler: precise mode flips once per press of A however long it is held (C32), and
  releasing one button of a jog pair while the other is held leaves the motor at 0 percent
  (C34). Robot 2: the drive thread raises \<open>UnboundLocalError\<close> on its first iteration
  (C2; MicroPython calls it \<open>NameError\<close>), so neither the drive nor the gate display
  ever runs in the program as written; the speed-mode flag could not influence the loop
  anyway (C23, C25); the mixer's profile and steering refinement (C24); the gate monitor's
  band tracking and edge-triggered writes (C21, C22, C33; the spec's example sequence 10,
  50, 340, 10 is an instance of C33), calibration (C29), the toggle as an involution (C26)
  and handler frame (C28). Robot 2's session: the drive motors are never commanded and the
  gate status never written in any reachable state (C35), their idle behaviour stays
  \<open>COAST\<close> so a stop would coast (C27), and the thread's first scheduled iteration
  always happens and always kills it (C37).

  \<^emph>\<open>Bounds and fuel.\<close> The endless \<open>while True\<close> loops are modelled by their loop
  bodies and by structural recursion over a finite list of samples (\<open>drive_loop1\<close>,
  \<open>drive_loop2\<close>): the first \<open>n\<close> iterations, for every \<open>n\<close>; no fuel is needed
  since each iteration terminates. Axis samples are taken in \<open>-100..100\<close> where a claim
  needs it (C9, the sessions' drive steps, and every controller sample: \<open>pad_ok\<close>).

  \<^emph>\<open>Not modelled.\<close> Motor physics beyond "the world may set any angle"
  (\<open>env_move\<close>); how \<open>str\<close> renders a float; the duration of \<open>sleep\<close> and the
  polling rate; the order in which the dispatcher fires simultaneous edges (fixed to the
  button order, the spec leaves it open); preemption inside an iteration (the scheduler is
  cooperative, so a step is a whole iteration or a whole handler); VEX running each event
  callback in its own thread (the spec calls handlers synchronous). One handler does wait:
  the preset move's blocking \<open>spin_to_position\<close> of the arm base; the model takes it as
  one atomic step that ends with the base at its target. The spec has the operator wait it
  out, and it commutes with drive iterations, which write only the drive motors, so no
  property here depends on interleaving inside it. Robot 2 has no abstract intent machine: its drive thread dies at once (C2), so
  its session is the handlers alone, characterised directly (C28, C35).

  \<^emph>\<open>Plan for the next steps.\<close> Done: robot 2's session (C35, C37), the effect-log
  shape (C36), interleaving over runs (C38), the operator-intent refinement (C20, C4), the
  screen bound (C11), the input sampler (C32, C34), the arm joint's targets (C4), robot 2's
  coasting stop (C27), the shared decision tree (C6). Left: an input-driven session for
  robot 2 (its handlers under polling; its drive thread is dead).
\<close>

text \<open>
  The gate monitor over a sequence of gate angles: before each pass the world turns the
  gate to the next angle.
\<close>

primrec gate_cycles :: "degrees list \<Rightarrow> robot2 \<Rightarrow> robot2" where
  "gate_cycles [] s = s"
| "gate_cycles (a # as) s = gate_cycles as (gate_monitor2 (s\<lparr>hw2 := env_move GateMotor a (hw2 s)\<rparr>))"

definition open_band :: "degrees \<Rightarrow> bool" where
  "open_band a \<longleftrightarrow> 30 \<le> py_fmod a 360 \<and> py_fmod a 360 \<le> 330"

primrec transitions :: "bool \<Rightarrow> bool list \<Rightarrow> nat" where
  "transitions b [] = 0"
| "transitions b (c # cs) = (if c = b then 0 else 1) + transitions c cs"

definition print_count :: "'m hw \<Rightarrow> nat" where
  "print_count h = length (filter (\<lambda>e. case e of ScreenEff (Print _) \<Rightarrow> True | _ \<Rightarrow> False) (effects h))"

text \<open>
  C6. The two scripts share one decision tree: on every pair of axis samples, whatever the
  mode flags and the per-cycle numbers, robot 1's and robot 2's drive loops stop on the
  same inputs and otherwise give each track the same direction (the literal
  \<open>FORWARD\<close>/\<open>REVERSE\<close> of each branch); they differ only in the powers (spec 9).
\<close>

theorem mixers_same_directions:
  "track_dirs (drive_mix1 prec y x) = track_dirs (drive_mix2 y x spd steer ts)"
  by (simp add: drive_mix1_def drive_mix2_def Let_def)

text \<open>
  C33. Over any sequence of gate angles, the monitor prints exactly once per change of the
  open/closed band, and ends with the status of the last angle: redundant writes never
  happen.
\<close>

theorem gate_cycles_writes:
  "print_count (hw2 (gate_cycles as s)) = print_count (hw2 s) + transitions (gate_open s) (map open_band as)
   \<and> gate_open (gate_cycles as s) = (if as = [] then gate_open s else open_band (last as))"
proof (induction as arbitrary: s)
  case Nil
  then show ?case by simp
next
  case (Cons a as)
  then show ?case
    by (simp add: gate_monitor2_cases open_band_def Let_def print_count_def)
qed

end
